theory Spec2Isabelle
  imports Complex_Main
begin

section \<open>Numbers and strings\<close>

text \<open>
  The definitions below follow the Cloud Functions source of Weightio: the handlers
  \<^verbatim>\<open>recalculateIndexes\<close> and \<^verbatim>\<open>adaptPlan\<close> with their helpers, and the two
  builders that \<^verbatim>\<open>generatePlan\<close> calls, \<^verbatim>\<open>buildWorkouts\<close> and
  \<^verbatim>\<open>buildIngredientPlan\<close>.

  A JavaScript number is modelled as an exact rational: the arithmetic of the source
  is written out as it stands, without the rounding of IEEE doubles, and without NaN
  and the infinities (where the source divides, the definition says what a zero
  divisor gives, or the divisor is assumed not to be zero). The counters of the loops
  are the exception: whether a loop ends depends on the rounding of its counter, which
  is modelled (\<open>to_double\<close> below). An optional value that is
  absent is \<open>None\<close>, which stands for \<^verbatim>\<open>undefined\<close> and for \<^verbatim>\<open>null\<close> where the
  source treats the two alike (\<^verbatim>\<open>!= null\<close>, \<^verbatim>\<open>??\<close>, \<^verbatim>\<open>!v\<close>); the numeric fields
  of a profile, which the source reads in two ways, keep them apart (\<open>input\<close> below).
  A string is a list of bytes (UTF-8); the en dash of the source is \<open>en_dash\<close>.
\<close>

type_synonym num = rat

definition js_round :: "num \<Rightarrow> num" where
  \<comment> \<open>\<^verbatim>\<open>Math.round\<close>: the nearest integer, a half going up.\<close>
  "js_round x = of_int \<lfloor>x + 1 / 2\<rfloor>"

definition js_floor :: "num \<Rightarrow> num" where
  "js_floor x = of_int \<lfloor>x\<rfloor>"

definition js_ceil :: "num \<Rightarrow> num" where
  "js_ceil x = of_int \<lceil>x\<rceil>"

definition to_fixed :: "nat \<Rightarrow> num \<Rightarrow> num" where
  \<comment> \<open>\<^verbatim>\<open>+(x).toFixed(d)\<close>: \<open>d\<close> decimals, a half going away from zero.\<close>
  "to_fixed d x = sgn x * of_int \<lfloor>\<bar>x\<bar> * 10 ^ d + 1 / 2\<rfloor> / 10 ^ d"

definition truthy :: "num option \<Rightarrow> bool" where
  \<comment> \<open>\<^verbatim>\<open>!!n\<close> for an optional number: present and not zero.\<close>
  "truthy n = (case n of None \<Rightarrow> False | Some v \<Rightarrow> v \<noteq> 0)"

text \<open>
  The sum of two doubles is the double nearest to the exact sum, a tie going to the one
  whose last bit is 0. A double has 53 significant bits: in the binade of \<open>x\<close>, from
  \<open>2 ^ e\<close> to \<open>2 ^ (e + 1)\<close>, the doubles are the multiples of \<open>2 ^ (e - 52)\<close>,
  and below \<open>2 ^ - 1022\<close> the multiples of \<open>2 ^ - 1074\<close>. A result of magnitude
  \<open>2 ^ 1024\<close> or more is an infinity, here \<open>None\<close>.
\<close>

function bit_length :: "int \<Rightarrow> int" where
  \<comment> \<open>The number of binary digits of a positive integer.\<close>
  "bit_length n = (if n \<le> 0 then 0 else bit_length (n div 2) + 1)"
  by pat_completeness auto

termination
  by (relation "measure nat") auto

declare bit_length.simps [simp del]

definition pow2 :: "int \<Rightarrow> num" where
  "pow2 k = (if 0 \<le> k then 2 ^ nat k else 1 / 2 ^ nat (- k))"

definition binade :: "num \<Rightarrow> int" where
  \<comment> \<open>For \<open>0 < x\<close>, the exponent \<open>e\<close> with \<open>2 ^ e \<le> x < 2 ^ (e + 1)\<close>.\<close>
  "binade x =
     (if 1 \<le> x then bit_length \<lfloor>x\<rfloor> - 1 else - bit_length (\<lceil>1 / x\<rceil> - 1))"

definition round_to_even :: "num \<Rightarrow> int" where
  "round_to_even y =
     (let f = \<lfloor>y\<rfloor>; r = y - of_int f
      in if r < 1 / 2 then f else if 1 / 2 < r then f + 1 else if even f then f else f + 1)"

definition to_double :: "num \<Rightarrow> num option" where
  "to_double x =
     (if x = 0 then Some 0
      else let e = max (binade \<bar>x\<bar>) (- 1022);
               q = pow2 (e - 52);
               r = of_int (round_to_even (x / q)) * q
           in if \<bar>r\<bar> < pow2 1024 then Some r else None)"

definition en_dash :: string where
  "en_dash = [CHR 0xE2, CHR 0x80, CHR 0x93]"

fun replace_hyphen :: "string \<Rightarrow> string" where
  \<comment> \<open>\<^verbatim>\<open>s.replace('-', en dash)\<close>: the first hyphen only.\<close>
  "replace_hyphen [] = []"
| "replace_hyphen (ch # cs) =
     (if ch = CHR ''-'' then en_dash @ cs else ch # replace_hyphen cs)"

section \<open>Index calculator\<close>

datatype Sex = male | female

datatype Method = mifflin_m | katch_m | override_m

datatype Band = low | med | high | highest

record Overrides =
  ov_BMR :: "num option"
  ov_TDEE :: "num option"
  ov_BMI :: "num option"

text \<open>
  A numeric field of a request body is a JSON value, read by the source through
  \<^verbatim>\<open>Number(v)\<close> and through \<^verbatim>\<open>v != null\<close> only. It is absent (\<^verbatim>\<open>undefined\<close>), or
  \<^verbatim>\<open>null\<close>, or a value kept as the number \<^verbatim>\<open>Number(v)\<close> when that is finite (a
  number, or text that converts to one), or a value that converts to NaN.
\<close>

datatype input = Undefined | Null | Number num | NotNumeric

record IndexReqBase =
  sex :: "Sex option"
  age_range :: "string option"
  height_cm :: input
  weight_kg :: input
  bodyfat_pct :: input
  waist_cm :: input
  overrides :: "Overrides option"

definition toNumberOrUndefined :: "input \<Rightarrow> num option" where
  \<comment> \<open>\<^verbatim>\<open>Number(undefined)\<close> is NaN, which is not finite; \<^verbatim>\<open>Number(null)\<close> is 0.\<close>
  "toNumberOrUndefined n =
     (case n of Undefined \<Rightarrow> None | Null \<Rightarrow> Some 0 | Number v \<Rightarrow> Some v | NotNumeric \<Rightarrow> None)"

definition not_null :: "input \<Rightarrow> bool" where
  \<comment> \<open>\<^verbatim>\<open>v != null\<close>, which \<^verbatim>\<open>undefined\<close> fails too.\<close>
  "not_null v = (v \<noteq> Undefined \<and> v \<noteq> Null)"

definition clamp :: "num \<Rightarrow> num \<Rightarrow> num \<Rightarrow> num" where
  "clamp n mn mx = max mn (min mx n)"

definition mapAgeRangeToNumeric :: "string \<Rightarrow> num" where
  "mapAgeRangeToNumeric age_range' =
     (let ar = replace_hyphen age_range' in
      if ar = ''<18'' then 16
      else if ar = ''18'' @ en_dash @ ''24'' then 21
      else if ar = ''25'' @ en_dash @ ''34'' then 29
      else if ar = ''35'' @ en_dash @ ''44'' then 39
      else if ar = ''45'' @ en_dash @ ''54'' then 49
      else if ar = ''55'' @ en_dash @ ''60'' then 57
      else if ar = ''>60'' then 65
      else 29)"

definition computeFFMI :: "num option \<Rightarrow> num option \<Rightarrow> num option \<Rightarrow> num option" where
  "computeFFMI kg cm bf =
     (case (kg, cm, bf) of
        (Some k, Some h, Some b) \<Rightarrow>
          if k = 0 \<or> h = 0 then None
          else let height_m = h / 100; lbm = k * (1 - b / 100)
               in Some (to_fixed 1 (lbm / (height_m * height_m)))
      | _ \<Rightarrow> None)"

definition mifflin :: "Sex \<Rightarrow> num option \<Rightarrow> num option \<Rightarrow> num option \<Rightarrow> num option" where
  "mifflin sx kg cm age =
     (case (kg, cm, age) of
        (Some k, Some h, Some a) \<Rightarrow>
          if k = 0 \<or> h = 0 \<or> a = 0 then None
          else let base = 10 * k + 6.25 * h - 5 * a
               in Some (js_round (if sx = male then base + 5 else base - 161))
      | _ \<Rightarrow> None)"

definition katch :: "num option \<Rightarrow> num option \<Rightarrow> num option" where
  "katch kg bodyfat =
     (case (kg, bodyfat) of
        (Some k, Some b) \<Rightarrow>
          if k = 0 then None
          else let LBM = k * (1 - b / 100) in Some (js_round (370 + 21.6 * LBM))
      | _ \<Rightarrow> None)"

definition ACTIVITY_BY_DAYS :: "num \<Rightarrow> num option" where
  "ACTIVITY_BY_DAYS d =
     (if d = 1 \<or> d = 2 then Some 1.375
      else if d = 3 \<or> d = 4 then Some 1.55
      else if d = 5 \<or> d = 6 then Some 1.725
      else None)"

definition activityMultiplier :: "num \<Rightarrow> num" where
  "activityMultiplier days =
     (let d = clamp (js_floor days) 1 6
      in case ACTIVITY_BY_DAYS d of Some m \<Rightarrow> m | None \<Rightarrow> 1.55)"

record Accuracy =
  accuracy :: Band
  next_best_input :: "string option"

definition accuracyBand :: "'a IndexReqBase_scheme \<Rightarrow> Accuracy" where
  "accuracyBand req =
     (let hasSex = (sex req \<noteq> None);
          hasWeight = not_null (weight_kg req);
          hasHeight = not_null (height_cm req);
          hasAgeRange = (case age_range req of None \<Rightarrow> False | Some s \<Rightarrow> s \<noteq> []);
          hasBodyfat = not_null (bodyfat_pct req);
          hasWaist = not_null (waist_cm req)
      in if hasBodyfat \<and> hasWaist \<and> hasHeight \<and> hasWeight \<and> hasAgeRange \<and> hasSex
         then \<lparr>accuracy = highest, next_best_input = None\<rparr>
         else if hasBodyfat \<and> hasHeight \<and> hasWeight \<and> hasAgeRange \<and> hasSex
         then \<lparr>accuracy = high,
               next_best_input = (if hasWaist then None else Some ''waist_cm'')\<rparr>
         else if hasHeight \<and> hasWeight \<and> hasAgeRange \<and> hasSex
         then \<lparr>accuracy = med, next_best_input = Some ''bodyfat_pct''\<rparr>
         else if hasSex \<and> (hasWeight \<or> hasHeight)
         then \<lparr>accuracy = low,
               next_best_input = Some (if hasHeight then ''weight_kg'' else ''height_cm'')\<rparr>
         else \<lparr>accuracy = low, next_best_input = Some ''height_cm''\<rparr>)"

record Indexes =
  i_BMR :: "num option"
  i_method :: Method
  i_BMI :: "num option"
  i_WHtR :: "num option"
  i_FFMI :: "num option"
  i_age :: num
  i_kg :: "num option"
  i_cm :: "num option"
  i_bf :: "num option"
  i_overrides :: Overrides

definition no_overrides :: Overrides where
  \<comment> \<open>\<^verbatim>\<open>req.overrides ?? {}\<close>\<close>
  "no_overrides = \<lparr>ov_BMR = None, ov_TDEE = None, ov_BMI = None\<rparr>"

definition computeIndexes :: "Sex \<Rightarrow> string \<Rightarrow> 'a IndexReqBase_scheme \<Rightarrow> Indexes" where
  \<comment> \<open>Both callers have checked that \<^verbatim>\<open>sex\<close> and \<^verbatim>\<open>age_range\<close> are
      present; they are passed as \<open>sx\<close> and \<open>ar\<close>.\<close>
  "computeIndexes sx ar req =
     (let age = mapAgeRangeToNumeric ar;
          kg = toNumberOrUndefined (weight_kg req);
          cm = toNumberOrUndefined (height_cm req);
          bf = toNumberOrUndefined (bodyfat_pct req);
          waist = toNumberOrUndefined (waist_cm req);
          bmr_katch = katch kg bf;
          bmr_mifflin = mifflin sx kg cm (Some age);
          ovr = (case overrides req of None \<Rightarrow> no_overrides | Some ov \<Rightarrow> ov);
          (BMR, method) =
            (case ov_BMR ovr of
               Some b \<Rightarrow> (Some (clamp b 800 3000), override_m)
             | None \<Rightarrow>
                (case bmr_katch of
                   Some b \<Rightarrow> (Some b, katch_m)
                 | None \<Rightarrow>
                    (case bmr_mifflin of
                       Some b \<Rightarrow> (Some b, mifflin_m)
                     | None \<Rightarrow> (None, mifflin_m))));
          BMI =
            (case ov_BMI ovr of
               Some b \<Rightarrow> Some (clamp b 10 60)
             | None \<Rightarrow>
                 if truthy kg \<and> truthy cm
                 then (let m = the cm / 100 in Some (to_fixed 1 (the kg / (m * m))))
                 else None);
          WHtR =
            (if truthy waist \<and> truthy cm then Some (to_fixed 2 (the waist / the cm))
             else None);
          FFMI = computeFFMI kg cm bf
      in \<lparr>i_BMR = BMR, i_method = method, i_BMI = BMI, i_WHtR = WHtR, i_FFMI = FFMI,
          i_age = age, i_kg = kg, i_cm = cm, i_bf = bf, i_overrides = ovr\<rparr>)"

definition computeTDEE :: "num option \<Rightarrow> num option \<Rightarrow> num option \<Rightarrow> num option" where
  "computeTDEE BMR schedule_days TDEE_override =
     (case TDEE_override of
        Some t \<Rightarrow> Some (clamp t 1200 5000)
      | None \<Rightarrow>
          if \<not> truthy BMR then None
          else let mult = activityMultiplier (case schedule_days of None \<Rightarrow> 3 | Some d \<Rightarrow> d)
               in Some (js_round (the BMR * mult)))"

text \<open>
  A template string is kept as its pieces: the literal text and the numbers put into it
  (the conversion of a number to decimal text is not modelled).
\<close>

datatype piece = Lit string | Num num

definition detectOverrideWarnings :: "num option \<Rightarrow> num option \<Rightarrow> string \<Rightarrow> piece list list" where
  \<comment> \<open>For a computed value of 0 the quotient is Infinity, or NaN when the override
      is 0 too; only Infinity exceeds 0.15.\<close>
  "detectOverrideWarnings computed ovr label =
     (case (computed, ovr) of
        (Some cv, Some ov) \<Rightarrow>
          (if (if cv = 0 then ov \<noteq> 0 else \<bar>ov - cv\<bar> / cv > 0.15)
           then [[Lit label, Lit '' override differs >15% from computed ('', Num cv,
                  Lit '' vs '', Num ov, Lit '').'']]
           else [])
      | _ \<Rightarrow> [])"

datatype http_error = BadRequest string | InternalError string

record RecalcRes =
  r_BMR :: "num option"
  r_method :: Method
  r_TDEE :: "num option"
  r_BMI :: "num option"
  r_WHtR :: "num option"
  r_FFMI :: "num option"
  r_accuracy :: Band
  r_next_best_input :: "string option"
  r_warnings :: "piece list list"

definition recalculateIndexes :: "IndexReqBase \<Rightarrow> http_error + RecalcRes" where
  "recalculateIndexes body =
     (case (sex body, age_range body) of
        (Some sx, Some ar) \<Rightarrow>
          if ar = [] then Inl (BadRequest ''sex and age_range are required.'')
          else
            (let idx = computeIndexes sx ar body;
                 BMR = i_BMR idx;
                 ovr = i_overrides idx;
                 TDEE = computeTDEE BMR (Some 3) (ov_TDEE ovr);
                 acc = accuracyBand body;
                 warnings =
                   detectOverrideWarnings BMR (ov_BMR ovr) ''BMR''
                   @ detectOverrideWarnings TDEE (ov_TDEE ovr) ''TDEE''
                   @ detectOverrideWarnings (i_BMI idx) (ov_BMI ovr) ''BMI''
             in Inr \<lparr>r_BMR = BMR, r_method = i_method idx, r_TDEE = TDEE,
                     r_BMI = i_BMI idx, r_WHtR = i_WHtR idx, r_FFMI = i_FFMI idx,
                     r_accuracy = accuracy acc, r_next_best_input = next_best_input acc,
                     r_warnings = warnings\<rparr>)
      | _ \<Rightarrow> Inl (BadRequest ''sex and age_range are required.''))"

section \<open>Workout builder\<close>

datatype Experience = novice | intermediate | advanced

datatype Goal = fat_loss | lean_mass | strength | recomp | hypertrophy

datatype Equipment = full_gym | dumbbells_only | bands_only | bodyweight_only

datatype Movement = compound | isolation

datatype Style = hypertrophy_style | strength_style

definition goal_style :: "Goal \<Rightarrow> Style" where
  \<comment> \<open>\<^verbatim>\<open>goal === 'strength' ? 'strength' : 'hypertrophy'\<close>\<close>
  "goal_style goal = (if goal = strength then strength_style else hypertrophy_style)"

fun REP_RANGES :: "Style \<Rightarrow> Experience \<Rightarrow> nat \<times> nat" where
  "REP_RANGES hypertrophy_style novice = (8, 12)"
| "REP_RANGES hypertrophy_style intermediate = (6, 12)"
| "REP_RANGES hypertrophy_style advanced = (5, 10)"
| "REP_RANGES strength_style novice = (5, 6)"
| "REP_RANGES strength_style intermediate = (3, 6)"
| "REP_RANGES strength_style advanced = (2, 5)"

fun SETS_BY_EXPERIENCE :: "Experience \<Rightarrow> num \<times> num" where
  "SETS_BY_EXPERIENCE novice = (8, 12)"
| "SETS_BY_EXPERIENCE intermediate = (12, 16)"
| "SETS_BY_EXPERIENCE advanced = (14, 20)"

fun RIR_BY_EXPERIENCE :: "Style \<Rightarrow> Experience \<Rightarrow> string" where
  "RIR_BY_EXPERIENCE hypertrophy_style novice = ''2'' @ en_dash @ ''3''"
| "RIR_BY_EXPERIENCE hypertrophy_style intermediate = ''1'' @ en_dash @ ''2''"
| "RIR_BY_EXPERIENCE hypertrophy_style advanced = ''0'' @ en_dash @ ''2''"
| "RIR_BY_EXPERIENCE strength_style novice = ''2''"
| "RIR_BY_EXPERIENCE strength_style intermediate = ''1'' @ en_dash @ ''2''"
| "RIR_BY_EXPERIENCE strength_style advanced = ''0'' @ en_dash @ ''1''"

fun REST_TIMES :: "Experience \<Rightarrow> string" where
  "REST_TIMES novice = ''90'' @ en_dash @ ''120s''"
| "REST_TIMES intermediate = ''120'' @ en_dash @ ''180s''"
| "REST_TIMES advanced = ''2'' @ en_dash @ ''3+ min''"

fun PROGRESSION_HINTS :: "Experience \<Rightarrow> string" where
  "PROGRESSION_HINTS novice = ''If reps hit top, +5% next time''"
| "PROGRESSION_HINTS intermediate =
     ''If reps hit top, +2'' @ en_dash @ ''2.5% or +1 rep''"
| "PROGRESSION_HINTS advanced =
     ''Microload +1'' @ en_dash @ ''2%; add back-off set if fresh''"

definition INJURY_AVOID :: "string \<Rightarrow> string list" where
  \<comment> \<open>\<^verbatim>\<open>INJURY_AVOID[inj] || []\<close>\<close>
  "INJURY_AVOID injury =
     (if injury = ''shoulder''
        then [''ohp'', ''pike_pushup'', ''db_ohp'', ''handstand'', ''lateral_raise'']
      else if injury = ''elbow'' then [''triceps'', ''skullcrusher'', ''dips'']
      else if injury = ''wrist'' then [''pushup'', ''bench_press'', ''db_press'']
      else if injury = ''low_back'' then [''deadlift'', ''rdl'', ''back_squat'', ''hip_hinge'']
      else if injury = ''hip'' then [''deep_squat'', ''split_squat'']
      else if injury = ''knee'' then [''squat'', ''lunge'', ''leg_press'', ''step_up'']
      else if injury = ''ankle'' then [''calf_raises'', ''step_up'', ''jump'']
      else [])"

record Exercise =
  ex_id :: string
  ex_name :: string
  ex_muscles :: "string list"
  ex_equipment :: "string list"
  ex_movement :: Movement
  ex_cues :: "string list"
  ex_regressions :: "string list"
  ex_progressions :: "string list"

fun starts_with :: "string \<Rightarrow> string \<Rightarrow> bool" where
  "starts_with s [] = True"
| "starts_with [] (ch # t) = False"
| "starts_with (a # s) (ch # t) = (a = ch \<and> starts_with s t)"

fun str_includes :: "string \<Rightarrow> string \<Rightarrow> bool" where
  \<comment> \<open>\<^verbatim>\<open>s.includes(t)\<close>: \<open>t\<close> occurs in \<open>s\<close> as a contiguous run.\<close>
  "str_includes [] t = (t = [])"
| "str_includes (a # s) t = (starts_with (a # s) t \<or> str_includes s t)"

text \<open>
  \<^verbatim>\<open>Array.prototype.sort\<close> with a comparator: the sort is stable, and is modelled
  by insertion from the right, an element going before the first one it does not exceed.
\<close>

fun insert_by :: "('a \<Rightarrow> 'a \<Rightarrow> num) \<Rightarrow> 'a \<Rightarrow> 'a list \<Rightarrow> 'a list" where
  "insert_by cmp x [] = [x]"
| "insert_by cmp x (y # ys) =
     (if cmp x y \<le> 0 then x # y # ys else y # insert_by cmp x ys)"

definition js_sort :: "('a \<Rightarrow> 'a \<Rightarrow> num) \<Rightarrow> 'a list \<Rightarrow> 'a list" where
  "js_sort cmp xs = foldr (insert_by cmp) xs []"

definition setsTarget :: "Experience \<Rightarrow> Goal \<Rightarrow> num" where
  "setsTarget experience goal =
     (let (lo, hi) = SETS_BY_EXPERIENCE experience;
          mid = js_round ((lo + hi) / 2);
          mid = (if goal = strength then js_round (mid * 0.8) else mid);
          mid = (if goal = fat_loss then js_round (mid * 0.85) else mid)
      in clamp mid 6 22)"

definition checkEquipmentCompatibility :: "string list \<Rightarrow> Equipment \<Rightarrow> bool" where
  "checkEquipmentCompatibility exerciseEquipment userEquipment =
     (case userEquipment of
        full_gym \<Rightarrow> True
      | dumbbells_only \<Rightarrow>
          ''dumbbell'' \<in> set exerciseEquipment \<or> ''bodyweight'' \<in> set exerciseEquipment
      | bands_only \<Rightarrow>
          ''band'' \<in> set exerciseEquipment \<or> ''bodyweight'' \<in> set exerciseEquipment
      | bodyweight_only \<Rightarrow> ''bodyweight'' \<in> set exerciseEquipment)"

text \<open>
  The platform's \<^verbatim>\<open>String.prototype.localeCompare\<close> and
  \<^verbatim>\<open>String.prototype.toLowerCase\<close> are parameters (\<open>lc\<close>, \<open>lower\<close>), and so is
  the exercise catalog that \<^verbatim>\<open>getCachedExercises\<close> reads.
\<close>

record Platform =
  localeCompare :: "string \<Rightarrow> string \<Rightarrow> num"
  toLowerCase :: "string \<Rightarrow> string"
  exercises :: "Exercise list"

definition avoided :: "(string \<Rightarrow> string) \<Rightarrow> string list \<Rightarrow> Exercise \<Rightarrow> bool" where
  \<comment> \<open>The loop over \<^verbatim>\<open>avoidTokens\<close> finds a token in the id or the
      lower-cased name.\<close>
  "avoided lower injuries exercise =
     (\<exists>token \<in> set (concat (map INJURY_AVOID injuries)).
        str_includes (ex_id exercise) token \<or> str_includes (lower (ex_name exercise)) token)"

definition candidate :: "(string \<Rightarrow> string) \<Rightarrow> Equipment \<Rightarrow> string \<Rightarrow> string list \<Rightarrow> Exercise \<Rightarrow> bool" where
  \<comment> \<open>The predicate of \<^verbatim>\<open>exercises.filter\<close> in \<^verbatim>\<open>chooseExercise\<close>.\<close>
  "candidate lower equipment muscle injuries exercise =
     (if muscle \<notin> set (ex_muscles exercise) then False
      else if \<not> checkEquipmentCompatibility (ex_equipment exercise) equipment then False
      else if avoided lower injuries exercise then False
      else True)"

definition exercise_cmp :: "(string \<Rightarrow> string \<Rightarrow> num) \<Rightarrow> Exercise \<Rightarrow> Exercise \<Rightarrow> num" where
  "exercise_cmp lc a b =
     (if ex_movement a = compound \<and> ex_movement b = isolation then - 1
      else if ex_movement a = isolation \<and> ex_movement b = compound then 1
      else lc (ex_name a) (ex_name b))"

definition chooseExercise :: "Platform \<Rightarrow> Equipment \<Rightarrow> string \<Rightarrow> string list \<Rightarrow> string" where
  "chooseExercise pf equipment muscle injuries =
     (let candidates =
            filter (candidate (toLowerCase pf) equipment muscle injuries) (exercises pf);
          sorted = js_sort (exercise_cmp (localeCompare pf)) candidates
      in case sorted of
           [] \<Rightarrow> muscle @ ''_fallback_exercise''
         | e # _ \<Rightarrow> ex_id e)"

record DaySplit =
  sp_day :: nat
  sp_muscles :: "string list"

definition splitByDays :: "num \<Rightarrow> DaySplit list" where
  "splitByDays days =
     (let d = clamp (js_floor days) 1 7 in
      if d \<le> 1 then
        [\<lparr>sp_day = 1, sp_muscles = [''chest'', ''back'', ''quads'', ''hams'', ''glutes'',
            ''shoulders'', ''triceps'', ''biceps'', ''core'']\<rparr>]
      else if d = 2 then
        [\<lparr>sp_day = 1, sp_muscles = [''chest'', ''upper_chest'', ''shoulders'', ''triceps'', ''core'']\<rparr>,
         \<lparr>sp_day = 2, sp_muscles = [''back'', ''lats'', ''quads'', ''hams'', ''glutes'', ''biceps'',
            ''rear_delts'']\<rparr>]
      else if d = 3 then
        [\<lparr>sp_day = 1, sp_muscles = [''chest'', ''upper_chest'', ''triceps'']\<rparr>,
         \<lparr>sp_day = 2, sp_muscles = [''back'', ''lats'', ''biceps'', ''rear_delts'']\<rparr>,
         \<lparr>sp_day = 3, sp_muscles = [''quads'', ''hams'', ''glutes'', ''calves'']\<rparr>]
      else if d = 4 then
        [\<lparr>sp_day = 1, sp_muscles = [''chest'', ''upper_chest'', ''shoulders'', ''triceps'']\<rparr>,
         \<lparr>sp_day = 2, sp_muscles = [''back'', ''lats'', ''biceps'', ''rear_delts'']\<rparr>,
         \<lparr>sp_day = 3, sp_muscles = [''chest'', ''upper_chest'', ''shoulders'', ''triceps'']\<rparr>,
         \<lparr>sp_day = 4, sp_muscles = [''quads'', ''hams'', ''glutes'', ''calves'']\<rparr>]
      else if d = 5 then
        [\<lparr>sp_day = 1, sp_muscles = [''chest'', ''upper_chest'', ''triceps'']\<rparr>,
         \<lparr>sp_day = 2, sp_muscles = [''back'', ''lats'', ''biceps'', ''rear_delts'']\<rparr>,
         \<lparr>sp_day = 3, sp_muscles = [''quads'', ''hams'', ''glutes'', ''calves'']\<rparr>,
         \<lparr>sp_day = 4, sp_muscles = [''chest'', ''shoulders'', ''triceps'']\<rparr>,
         \<lparr>sp_day = 5, sp_muscles = [''back'', ''lats'', ''rear_delts'']\<rparr>]
      else
        [\<lparr>sp_day = 1, sp_muscles = [''chest'', ''upper_chest'', ''triceps'']\<rparr>,
         \<lparr>sp_day = 2, sp_muscles = [''back'', ''lats'', ''biceps'', ''rear_delts'']\<rparr>,
         \<lparr>sp_day = 3, sp_muscles = [''quads'', ''hams'', ''glutes'', ''calves'']\<rparr>,
         \<lparr>sp_day = 4, sp_muscles = [''chest'', ''upper_chest'', ''triceps'']\<rparr>,
         \<lparr>sp_day = 5, sp_muscles = [''back'', ''lats'', ''biceps'', ''rear_delts'']\<rparr>,
         \<lparr>sp_day = 6, sp_muscles = [''quads'', ''hams'', ''glutes'', ''calves'']\<rparr>])"

text \<open>The decimal text of a natural number, as a template string writes it.\<close>

fun nat_str :: "nat \<Rightarrow> string" where
  "nat_str n =
     (if n < 10 then [char_of (48 + n)]
      else nat_str (n div 10) @ [char_of (48 + n mod 10)])"

record WorkoutBlock =
  b_muscle :: "string option"
  b_exerciseId :: string
  b_musclesWorked :: "string list"
  b_sets :: num
  b_reps :: string
  b_rir :: string
  b_rir_hint :: string
  b_rest_hint :: string
  b_progression_hint :: string
  b_alt_compact :: bool

record DayPlan =
  dp_day :: nat
  dp_blocks :: "WorkoutBlock list"

fun select_exercise :: "(string \<times> string list) list \<Rightarrow> string \<Rightarrow> string \<Rightarrow> (string \<times> string list) list" where
  \<comment> \<open>One step of the loop over \<^verbatim>\<open>muscles\<close> on the map
      \<^verbatim>\<open>selectedExercises\<close>, kept in insertion order.\<close>
  "select_exercise [] exerciseId muscle = [(exerciseId, [muscle])]"
| "select_exercise ((k, ms) # rest) exerciseId muscle =
     (if k = exerciseId then (k, ms @ [muscle]) # rest
      else (k, ms) # select_exercise rest exerciseId muscle)"

definition setsPerMuscle :: "num \<Rightarrow> Experience \<Rightarrow> Goal \<Rightarrow> num" where
  "setsPerMuscle days experience goal =
     (let split = splitByDays days;
          targetSetsPerMuscle = setsTarget experience goal;
          totalMusclesPerWeek = foldl (\<lambda>acc s. acc + of_nat (length (sp_muscles s))) 0 split
      in max 3 (js_round (targetSetsPerMuscle / (totalMusclesPerWeek / of_nat (length split)))))"

definition selectExercises :: "Platform \<Rightarrow> Equipment \<Rightarrow> string list \<Rightarrow> string list \<Rightarrow> (string \<times> string list) list" where
  \<comment> \<open>The loop \<^verbatim>\<open>for (const muscle of muscles)\<close> of one day.\<close>
  "selectExercises pf equipment injuries muscles =
     foldl (\<lambda>sel muscle. select_exercise sel (chooseExercise pf equipment muscle injuries) muscle)
       [] muscles"

definition make_block :: "num \<Rightarrow> nat \<times> nat \<Rightarrow> string \<Rightarrow> string \<Rightarrow> string \<Rightarrow> string \<times> string list \<Rightarrow> WorkoutBlock" where
  \<comment> \<open>The object pushed to \<^verbatim>\<open>blocks\<close> for one entry of the map.\<close>
  "make_block sets repRange rir restTime progressionHint entry =
     (case entry of
        (exerciseId, musclesWorked) \<Rightarrow>
          \<lparr>b_muscle = (case musclesWorked of [] \<Rightarrow> None | m # _ \<Rightarrow> Some m),
           b_exerciseId = exerciseId,
           b_musclesWorked = musclesWorked,
           b_sets = sets,
           b_reps = nat_str (fst repRange) @ en_dash @ nat_str (snd repRange),
           b_rir = rir,
           b_rir_hint = ''RIR '' @ rir @ ''; rest '' @ restTime,
           b_rest_hint = restTime,
           b_progression_hint = progressionHint,
           b_alt_compact = True\<rparr>)"

definition buildWorkouts :: "Platform \<Rightarrow> num \<Rightarrow> Experience \<Rightarrow> Goal \<Rightarrow> Equipment \<Rightarrow> string list \<Rightarrow> DayPlan list" where
  "buildWorkouts pf days experience goal equipment injuries =
     (let split = splitByDays days;
          repRange = REP_RANGES (goal_style goal) experience;
          rir = RIR_BY_EXPERIENCE (goal_style goal) experience;
          restTime = REST_TIMES experience;
          progressionHint = PROGRESSION_HINTS experience;
          sets = setsPerMuscle days experience goal
      in map (\<lambda>s. \<lparr>dp_day = sp_day s,
                    dp_blocks = map (make_block sets repRange rir restTime progressionHint)
                                  (selectExercises pf equipment injuries (sp_muscles s))\<rparr>)
           split)"

section \<open>Adaptation engine\<close>

text \<open>
  \<^verbatim>\<open>adaptPlan\<close> reads and writes a deep copy of the plan it is given. Of that
  plan the record below keeps what the handler touches: the calories and, for each
  block of each workout, the muscle, the sets and the RIR text.
\<close>

datatype Trend = below | on_target | above

record PlanBlock =
  pb_muscle :: string
  pb_sets :: "num option"
  pb_rir :: "string option"

record PlanDay =
  pd_blocks :: "PlanBlock list option"

record CurrentPlan =
  cp_workouts :: "PlanDay list option"
  cp_kcal :: "num option"

record Readiness =
  sleep_h :: num
  soreness :: "(string \<times> num) list option"
  stress :: num
  motivation :: num

record AdaptReq =
  current_plan :: "CurrentPlan option"
  readiness :: "Readiness option"
  last_week_adherence_pct :: "num option"
  weight_trend_2w :: "Trend option"

record AdaptRes =
  patched_plan :: CurrentPlan
  change_log :: "piece list list"

definition for_each_block :: "(PlanBlock \<Rightarrow> PlanBlock) \<Rightarrow> CurrentPlan \<Rightarrow> CurrentPlan" where
  \<comment> \<open>\<^verbatim>\<open>(plan.workouts ?? []).forEach(w => (w.blocks ?? []).forEach(b => ...))\<close>\<close>
  "for_each_block g plan =
     plan\<lparr>cp_workouts :=
            map_option (map (\<lambda>w. w\<lparr>pd_blocks := map_option (map g) (pd_blocks w)\<rparr>))
              (cp_workouts plan)\<rparr>"

definition sets_or_3 :: "num option \<Rightarrow> num" where
  \<comment> \<open>\<^verbatim>\<open>Number(b.sets) || 3\<close>\<close>
  "sets_or_3 s = (case s of None \<Rightarrow> 3 | Some v \<Rightarrow> if v = 0 then 3 else v)"

definition region_matches :: "string \<Rightarrow> PlanBlock \<Rightarrow> bool" where
  "region_matches region b =
     (str_includes (pb_muscle b) region \<or> str_includes region (pb_muscle b))"

definition soreness_block :: "string \<Rightarrow> PlanBlock \<Rightarrow> PlanBlock" where
  "soreness_block region b =
     (if region_matches region b
      then b\<lparr>pb_sets := Some (max 1 (sets_or_3 (pb_sets b) - 1))\<rparr>
      else b)"

definition soreness_entry :: "CurrentPlan \<times> piece list list \<Rightarrow> string \<times> num \<Rightarrow> CurrentPlan \<times> piece list list" where
  \<comment> \<open>The body of \<^verbatim>\<open>Object.entries(soreness).forEach\<close>.\<close>
  "soreness_entry st entry =
     (case (st, entry) of
        ((plan, clog), (region, score)) \<Rightarrow>
          if score \<ge> 4
          then (for_each_block (soreness_block region) plan,
                clog @ [[Lit region, Lit '' -1 set (soreness '', Num score, Lit '').'']])
          else (plan, clog))"

definition fatigue_block :: "PlanBlock \<Rightarrow> PlanBlock" where
  "fatigue_block b =
     b\<lparr>pb_rir := Some ''2'', pb_sets := Some (max 1 (js_round (sets_or_3 (pb_sets b) * 0.9)))\<rparr>"

definition adherence_block :: "PlanBlock \<Rightarrow> PlanBlock" where
  "adherence_block b =
     b\<lparr>pb_sets := Some (max 1 (js_round (sets_or_3 (pb_sets b) * 0.85)))\<rparr>"

definition weight_trend_rule :: "Trend option \<Rightarrow> CurrentPlan \<times> piece list list \<Rightarrow> CurrentPlan \<times> piece list list" where
  "weight_trend_rule trend st =
     (case st of
        (plan, clog) \<Rightarrow>
          if truthy (cp_kcal plan) then
            (let kcal = the (cp_kcal plan) in
             if trend = Some above then
               (let newKcal = js_round (kcal * 0.95) in
                if newKcal \<noteq> kcal
                then (plan\<lparr>cp_kcal := Some newKcal\<rparr>,
                      clog @ [[Lit ''Calories -5% (weight above target).'']])
                else (plan, clog))
             else if trend = Some below then
               (let newKcal = js_round (kcal * 1.05) in
                if newKcal \<noteq> kcal
                then (plan\<lparr>cp_kcal := Some newKcal\<rparr>,
                      clog @ [[Lit ''Calories +5% (weight below target).'']])
                else (plan, clog))
             else (plan, clog))
          else (plan, clog))"

definition adaptPlan :: "AdaptReq \<Rightarrow> http_error + AdaptRes" where
  "adaptPlan body =
     (case (current_plan body, readiness body) of
        (Some plan, Some rd) \<Rightarrow>
          (let st1 = foldl soreness_entry (plan, [])
                       (case soreness rd of None \<Rightarrow> [] | Some es \<Rightarrow> es);
               st2 = (if stress rd \<ge> 4 \<and> motivation rd \<le> 2
                      then (for_each_block fatigue_block (fst st1),
                            snd st1 @ [[Lit ''Global fatigue: sets -10%, cap RIR at 2.'']])
                      else st1);
               st3 = weight_trend_rule (weight_trend_2w body) st2;
               st4 = (if (case last_week_adherence_pct body of None \<Rightarrow> 100 | Some a \<Rightarrow> a) < 60
                      then (for_each_block adherence_block (fst st3),
                            snd st3 @ [[Lit ''Low adherence: temporary -15% sets.'']])
                      else st3)
           in Inr \<lparr>patched_plan = fst st4, change_log = snd st4\<rparr>)
      | _ \<Rightarrow> Inl (BadRequest ''current_plan and readiness are required.''))"

section \<open>Meal allocator\<close>

datatype BudgetTier = tier_low | tier_medium | tier_high

datatype Category = protein | carb | veg | fat

datatype Unit = unit_g | unit_piece

datatype Strictness = normal | tight | loose

record MacroPer100 =
  m_kcal :: num
  m_p :: num
  m_c :: num
  m_f :: num

record PortionMeta =
  pm_unit :: "Unit option"
  pm_typical_g :: "num option"
  pm_min_g :: "num option"
  pm_max_g :: "num option"
  pm_step_g :: "num option"
  pm_grams_per_piece :: "num option"
  pm_min_pieces :: "num option"
  pm_max_pieces :: "num option"
  pm_step_pieces :: "num option"

record IngredientDocV2 =
  ing_id :: "string option"
  ing_name :: string
  ing_category :: Category
  ing_macro_per_100g :: MacroPer100
  ing_typical_portion_g :: "num option"
  ing_budget_tier :: BudgetTier
  ing_notes :: "string option"
  ing_portion :: "PortionMeta option"
  ing_availability_score :: "num option"

record PortionCandidate =
  pc_grams :: num
  pc_p :: num
  pc_c :: num
  pc_f :: num
  pc_kcal :: num
  pc_label :: "piece list option"

record Item =
  it_ingredientId :: string
  it_name :: string
  it_grams :: num
  it_label :: "piece list option"
  it_p :: num
  it_c :: num
  it_f :: num
  it_kcal :: num
  it_category :: Category

record MealCombo =
  mc_items :: "Item list"
  mc_totP :: num
  mc_totC :: num
  mc_totF :: num
  mc_totK :: num
  mc_score :: num

record Targets =
  t_Ppm :: num
  t_Cpm :: num
  t_Fpm :: num
  t_Kpm :: num

definition qRound :: "num \<Rightarrow> num \<Rightarrow> num" where
  \<comment> \<open>The step is not zero (the source would give NaN).\<close>
  "qRound n step = js_round (n / step) * step"

definition clampValue :: "num \<Rightarrow> num \<Rightarrow> num \<Rightarrow> num" where
  "clampValue n lo hi = max lo (min hi n)"

definition no_portion :: PortionMeta where
  \<comment> \<open>\<^verbatim>\<open>ing.portion ?? {}\<close>\<close>
  "no_portion = \<lparr>pm_unit = None, pm_typical_g = None, pm_min_g = None, pm_max_g = None,
     pm_step_g = None, pm_grams_per_piece = None, pm_min_pieces = None,
     pm_max_pieces = None, pm_step_pieces = None\<rparr>"

definition or_else :: "'a option \<Rightarrow> 'a \<Rightarrow> 'a" where
  \<comment> \<open>\<^verbatim>\<open>v ?? d\<close>\<close>
  "or_else v d = (case v of None \<Rightarrow> d | Some x \<Rightarrow> x)"

definition portion_of :: "MacroPer100 \<Rightarrow> num \<Rightarrow> piece list option \<Rightarrow> PortionCandidate" where
  "portion_of m g label =
     \<lparr>pc_grams = g, pc_p = (m_p m * g) / 100, pc_c = (m_c m * g) / 100,
      pc_f = (m_f m * g) / 100, pc_kcal = (m_kcal m * g) / 100, pc_label = label\<rparr>"

text \<open>
  The loop \<^verbatim>\<open>for (let pcs = minP; pcs <= maxP; pcs += stepP)\<close> does not end when
  its counter stops advancing, the step being not positive or too small to change the
  counter: it is a partial function, \<open>None\<close> where it runs forever. The counter is a
  double, \<^verbatim>\<open>pcs += stepP\<close> rounds the sum. When the sum is an infinity, the loop
  ends after this pass if it is the positive one (which is above \<^verbatim>\<open>maxP\<close>), and
  never if it is the negative one.
\<close>

partial_function (option) piece_loop :: "MacroPer100 \<Rightarrow> num \<Rightarrow> num \<Rightarrow> num \<Rightarrow> num \<Rightarrow> PortionCandidate list \<Rightarrow> PortionCandidate list option" where
  "piece_loop m gpp maxP stepP pcs out =
     (if pcs \<le> maxP
      then (case to_double (pcs + stepP) of
              Some next_pcs \<Rightarrow>
                piece_loop m gpp maxP stepP next_pcs
                  (out @ [portion_of m (pcs * gpp) (Some [Num pcs, Lit '' pcs''])])
            | None \<Rightarrow>
                if 0 < pcs + stepP
                then Some (out @ [portion_of m (pcs * gpp) (Some [Num pcs, Lit '' pcs''])])
                else None)
      else Some out)"

declare piece_loop.simps [code]

definition portionCandidates :: "IngredientDocV2 \<Rightarrow> PortionCandidate list option" where
  "portionCandidates ing =
     (let m = ing_macro_per_100g ing;
          pm = or_else (ing_portion ing) no_portion;
          typical = or_else (pm_typical_g pm) (or_else (ing_typical_portion_g ing) 100);
          unit = or_else (pm_unit pm) unit_g
      in if unit = unit_piece \<and> truthy (pm_grams_per_piece pm) then
           piece_loop m (the (pm_grams_per_piece pm)) (or_else (pm_max_pieces pm) 3)
             (or_else (pm_step_pieces pm) 1) (or_else (pm_min_pieces pm) 1) []
         else
           (let minG = or_else (pm_min_g pm) (max 50 (js_floor (typical * 0.5)));
                maxG = or_else (pm_max_g pm) (min 300 (js_ceil (typical * 2.0)));
                stepG = or_else (pm_step_g pm) 10;
                mults = [0.75, 1.0, 1.25, 1.5];
                raw = js_sort (\<lambda>a b. a - b)
                        (remdups (map (\<lambda>x. clampValue (qRound (typical * x) stepG) minG maxG) mults))
            in Some (map (\<lambda>g. portion_of m g None) raw)))"

definition scoreCombo :: "num \<Rightarrow> num \<Rightarrow> num \<Rightarrow> num \<Rightarrow> num \<Rightarrow> num \<Rightarrow> num \<Rightarrow> num \<Rightarrow> num" where
  "scoreCombo totP totC totF targetP targetC targetF targetK kPenalty =
     (let eP = \<bar>totP - targetP\<bar>;
          eC = \<bar>totC - targetC\<bar>;
          eF = \<bar>totF - targetF\<bar>;
          kcal = totP * 4 + totC * 4 + totF * 9;
          eK = \<bar>kcal - targetK\<bar>
      in 1.2 * eP + 1.0 * eC + 0.8 * eF + kPenalty * eK)"

definition cartesian :: "'a list \<Rightarrow> 'a list \<Rightarrow> ('a \<times> 'a) list" where
  "cartesian a b = concat (map (\<lambda>i. map (\<lambda>j. (i, j)) b) a)"

definition category_target :: "Category \<Rightarrow> Targets \<Rightarrow> num" where
  \<comment> \<open>\<^verbatim>\<open>cat === "protein" ? Ppm : cat === "carb" ? Cpm : cat === "fat" ? Fpm : 0\<close>\<close>
  "category_target cat T =
     (if cat = protein then t_Ppm T else if cat = carb then t_Cpm T
      else if cat = fat then t_Fpm T else 0)"

definition sortKey :: "Category \<Rightarrow> Targets \<Rightarrow> PortionCandidate \<Rightarrow> num" where
  "sortKey cat T cand =
     (let macro = (if cat = protein then pc_p cand else if cat = carb then pc_c cand
                   else if cat = fat then pc_f cand else 0)
      in \<bar>macro - category_target cat T\<bar>)"

type_synonym pcands = "string \<Rightarrow> PortionCandidate list option"

fun pcands_loop :: "Targets \<Rightarrow> Category \<Rightarrow> IngredientDocV2 list \<Rightarrow> pcands \<Rightarrow> pcands option" where
  \<comment> \<open>The loop \<^verbatim>\<open>for (const ing of pool[cat])\<close> that fills
      \<^verbatim>\<open>pcands[ing.name]\<close>.\<close>
  "pcands_loop T cat [] pc = Some pc"
| "pcands_loop T cat (ing # ings) pc =
     (case portionCandidates ing of
        None \<Rightarrow> None
      | Some cands \<Rightarrow>
          (let chosen = take 4 (js_sort (\<lambda>a b. sortKey cat T a - sortKey cat T b) cands)
           in pcands_loop T cat ings (pc(ing_name ing \<mapsto> chosen))))"

definition precompute :: "Targets \<Rightarrow> (Category \<Rightarrow> IngredientDocV2 list) \<Rightarrow> pcands option" where
  \<comment> \<open>\<^verbatim>\<open>for (const cat of ["protein","carb","veg","fat"])\<close>\<close>
  "precompute T pool =
     (case pcands_loop T protein (pool protein) Map.empty of
        None \<Rightarrow> None
      | Some pc1 \<Rightarrow>
          (case pcands_loop T carb (pool carb) pc1 of
             None \<Rightarrow> None
           | Some pc2 \<Rightarrow>
               (case pcands_loop T veg (pool veg) pc2 of
                  None \<Rightarrow> None
                | Some pc3 \<Rightarrow> pcands_loop T fat (pool fat) pc3)))"

text \<open>
  \<^verbatim>\<open>Math.random()\<close> is read from \<open>rnd\<close>: \<open>rnd n\<close> is the value of the call
  number \<open>n\<close> (from 0) made while \<^verbatim>\<open>buildIngredientPlan\<close> runs. The functions
  that draw take the number of draws made so far and return it updated.
\<close>

fun shuffle_loop :: "(nat \<Rightarrow> num) \<Rightarrow> nat \<Rightarrow> 'a list \<Rightarrow> nat \<Rightarrow> 'a list \<times> nat" where
  \<comment> \<open>\<^verbatim>\<open>for (let i = shuffled.length - 1; i > 0; i--)\<close>\<close>
  "shuffle_loop rnd 0 xs n = (xs, n)"
| "shuffle_loop rnd (Suc i) xs n =
     (let j = nat \<lfloor>rnd n * (of_nat (Suc i) + 1)\<rfloor>
      in shuffle_loop rnd i (xs[Suc i := xs ! j, j := xs ! Suc i]) (Suc n))"

definition hasIngredient :: "MealCombo \<Rightarrow> string \<Rightarrow> bool" where
  "hasIngredient beam ingredientName = (\<exists>item \<in> set (mc_items beam). it_name item = ingredientName)"

definition make_item :: "IngredientDocV2 \<Rightarrow> PortionCandidate \<Rightarrow> Item" where
  "make_item ing cand =
     \<lparr>it_ingredientId = or_else (ing_id ing) (ing_name ing),
      it_name = ing_name ing,
      it_grams = pc_grams cand,
      it_label = pc_label cand,
      it_p = pc_p cand, it_c = pc_c cand, it_f = pc_f cand, it_kcal = pc_kcal cand,
      it_category = ing_category ing\<rparr>"

definition add_single :: "Targets \<Rightarrow> MealCombo \<Rightarrow> Item \<Rightarrow> MealCombo" where
  "add_single targets beam item =
     (let totP = mc_totP beam + it_p item;
          totC = mc_totC beam + it_c item;
          totF = mc_totF beam + it_f item;
          totK = mc_totK beam + it_kcal item;
          score = scoreCombo totP totC totF (t_Ppm targets) (t_Cpm targets) (t_Fpm targets)
                    (t_Kpm targets) 0.05
      in \<lparr>mc_items = mc_items beam @ [item], mc_totP = totP, mc_totC = totC, mc_totF = totF,
          mc_totK = totK, mc_score = score\<rparr>)"

definition add_pair :: "Targets \<Rightarrow> MealCombo \<Rightarrow> Item \<Rightarrow> Item \<Rightarrow> MealCombo" where
  "add_pair targets beam itemA itemB =
     (let totP = mc_totP beam + it_p itemA + it_p itemB;
          totC = mc_totC beam + it_c itemA + it_c itemB;
          totF = mc_totF beam + it_f itemA + it_f itemB;
          totK = mc_totK beam + it_kcal itemA + it_kcal itemB;
          score = scoreCombo totP totC totF (t_Ppm targets) (t_Cpm targets) (t_Fpm targets)
                    (t_Kpm targets) 0.05
      in \<lparr>mc_items = mc_items beam @ [itemA, itemB], mc_totP = totP, mc_totC = totC,
          mc_totF = totF, mc_totK = totK, mc_score = score\<rparr>)"

definition lookup :: "pcands \<Rightarrow> string \<Rightarrow> PortionCandidate list" where
  \<comment> \<open>\<^verbatim>\<open>pcands[name] || []\<close>\<close>
  "lookup pc nm = or_else (pc nm) []"

definition singles :: "pcands \<Rightarrow> Targets \<Rightarrow> MealCombo \<Rightarrow> IngredientDocV2 list \<Rightarrow> MealCombo list" where
  "singles pc targets beam choices =
     concat (map (\<lambda>ing.
        if hasIngredient beam (ing_name ing) then []
        else map (\<lambda>cand. add_single targets beam (make_item ing cand)) (lookup pc (ing_name ing)))
       choices)"

fun index_pairs :: "'a list \<Rightarrow> ('a \<times> 'a) list" where
  \<comment> \<open>The pairs \<^verbatim>\<open>(choices[i], choices[j])\<close> with \<^verbatim>\<open>i < j\<close>, \<^verbatim>\<open>i\<close> outermost.\<close>
  "index_pairs [] = []"
| "index_pairs (a # rest) = map (\<lambda>b. (a, b)) rest @ index_pairs rest"

definition pairs :: "pcands \<Rightarrow> Targets \<Rightarrow> MealCombo \<Rightarrow> IngredientDocV2 list \<Rightarrow> MealCombo list" where
  "pairs pc targets beam choices =
     concat (map (\<lambda>(a, b).
        if hasIngredient beam (ing_name a) \<or> hasIngredient beam (ing_name b) then []
        else map (\<lambda>(pca, pcb). add_pair targets beam (make_item a pca) (make_item b pcb))
               (cartesian (lookup pc (ing_name a)) (lookup pc (ing_name b))))
       (index_pairs choices))"

record Lists =
  l_ingList :: "IngredientDocV2 list"
  l_ranked :: "IngredientDocV2 list"
  l_shuffled :: "IngredientDocV2 list"

fun k_loop :: "(nat \<Rightarrow> num) \<Rightarrow> pcands \<Rightarrow> Targets \<Rightarrow> Lists \<Rightarrow> MealCombo \<Rightarrow> nat list \<Rightarrow> nat \<Rightarrow> MealCombo list \<times> nat" where
  \<comment> \<open>\<^verbatim>\<open>for (let k = kMin; k <= kMax; k++)\<close> for one beam; the values of
      \<open>k\<close> are listed.\<close>
  "k_loop rnd pc targets ls beam [] n = ([], n)"
| "k_loop rnd pc targets ls beam (k # ks) n =
     (if k = 0 then
        (let (rest, n') = k_loop rnd pc targets ls beam ks n in (beam # rest, n'))
      else
        (let useShuffled = (rnd n < 0.6);
             choices = take (min 20 (length (l_ingList ls)))
                         (if useShuffled then l_shuffled ls else l_ranked ls);
             out1 = (if k \<ge> 1 then singles pc targets beam choices else []);
             out2 = (if k \<ge> 2 then pairs pc targets beam choices else []);
             (rest, n') = k_loop rnd pc targets ls beam ks (Suc n)
         in (out1 @ out2 @ rest, n')))"

fun beams_loop :: "(nat \<Rightarrow> num) \<Rightarrow> pcands \<Rightarrow> Targets \<Rightarrow> Lists \<Rightarrow> nat list \<Rightarrow> MealCombo list \<Rightarrow> nat \<Rightarrow> MealCombo list \<times> nat" where
  \<comment> \<open>\<^verbatim>\<open>for (const beam of beams)\<close>\<close>
  "beams_loop rnd pc targets ls ks [] n = ([], n)"
| "beams_loop rnd pc targets ls ks (beam # beams) n =
     (let (out, n1) = k_loop rnd pc targets ls beam ks n;
          (rest, n2) = beams_loop rnd pc targets ls ks beams n1
      in (out @ rest, n2))"

definition macroGetter :: "Category \<Rightarrow> IngredientDocV2 \<Rightarrow> num" where
  "macroGetter cat ing =
     (let m = ing_macro_per_100g ing;
          portion = (if truthy (ing_typical_portion_g ing) then the (ing_typical_portion_g ing)
                     else 100)
      in if cat = protein then m_p m * portion / 100
         else if cat = carb then m_c m * portion / 100
         else if cat = fat then m_f m * portion / 100
         else 0)"

definition beam_cmp :: "MealCombo \<Rightarrow> MealCombo \<Rightarrow> num" where
  "beam_cmp x y =
     (if mc_score x \<noteq> mc_score y then mc_score x - mc_score y
      else of_nat (length (mc_items x)) - of_nat (length (mc_items y)))"

definition extendBeams :: "(nat \<Rightarrow> num) \<Rightarrow> (Category \<Rightarrow> IngredientDocV2 list) \<Rightarrow> pcands \<Rightarrow> MealCombo list \<Rightarrow> Category \<Rightarrow> nat \<Rightarrow> nat \<Rightarrow> nat \<Rightarrow> Targets \<Rightarrow> nat \<Rightarrow> MealCombo list \<times> nat" where
  "extendBeams rnd pool pc beams cat kMin kMax beamSize targets n =
     (let ingList = pool cat;
          targetMacro = category_target cat targets;
          ranked = js_sort (\<lambda>a b. \<bar>macroGetter cat a - targetMacro\<bar>
                                   - \<bar>macroGetter cat b - targetMacro\<bar>) ingList;
          (shuffled, n1) = shuffle_loop rnd (length ranked - 1) ranked n;
          ls = \<lparr>l_ingList = ingList, l_ranked = ranked, l_shuffled = shuffled\<rparr>;
          (out, n2) = beams_loop rnd pc targets ls [kMin ..< Suc kMax] beams n1;
          rankedOut = take beamSize (js_sort beam_cmp out)
      in (rankedOut, n2))"

definition ranges :: "Goal \<Rightarrow> Category \<Rightarrow> nat \<times> nat" where
  "ranges goalHint cat =
     (case cat of
        protein \<Rightarrow> (1, 1)
      | veg \<Rightarrow> (1, 1)
      | carb \<Rightarrow> (if goalHint = fat_loss then (0, 1) else (1, 1))
      | fat \<Rightarrow> (1, 1))"

definition empty_beam :: "Targets \<Rightarrow> MealCombo" where
  "empty_beam T =
     \<lparr>mc_items = [], mc_totP = 0, mc_totC = 0, mc_totF = 0, mc_totK = 0,
      mc_score = scoreCombo 0 0 0 (t_Ppm T) (t_Cpm T) (t_Fpm T) (t_Kpm T) 0.05\<rparr>"

definition mealTargets :: "(nat \<Rightarrow> num) \<Rightarrow> Targets \<Rightarrow> nat \<Rightarrow> Targets" where
  "mealTargets rnd T n =
     (let varietyFactor = 0.15;
          mealPpm = t_Ppm T * (1 + (rnd n - 0.5) * varietyFactor);
          mealCpm = t_Cpm T * (1 + (rnd (n + 1) - 0.5) * varietyFactor);
          mealFpm = t_Fpm T * (1 + (rnd (n + 2) - 0.5) * varietyFactor)
      in \<lparr>t_Ppm = mealPpm, t_Cpm = mealCpm, t_Fpm = mealFpm,
          t_Kpm = mealPpm * 4 + mealCpm * 4 + mealFpm * 9\<rparr>)"

definition stage :: "(nat \<Rightarrow> num) \<Rightarrow> (Category \<Rightarrow> IngredientDocV2 list) \<Rightarrow> pcands \<Rightarrow> Goal \<Rightarrow> Targets \<Rightarrow> Category \<Rightarrow> nat \<Rightarrow> MealCombo list \<times> nat \<Rightarrow> MealCombo list \<times> nat" where
  \<comment> \<open>\<^verbatim>\<open>beams = extendBeams(beams, cat, ranges[cat][0], ranges[cat][1], beamSize, mealTargets)\<close>\<close>
  "stage rnd pool pc goalHint targets cat beamSize st =
     extendBeams rnd pool pc (fst st) cat
       (fst (ranges goalHint cat)) (snd (ranges goalHint cat)) beamSize targets (snd st)"

definition mealBeams :: "(nat \<Rightarrow> num) \<Rightarrow> (Category \<Rightarrow> IngredientDocV2 list) \<Rightarrow> pcands \<Rightarrow> Goal \<Rightarrow> Targets \<Rightarrow> nat \<Rightarrow> MealCombo list \<times> nat" where
  \<comment> \<open>One pass of the loop over \<^verbatim>\<open>mealIdx\<close>, up to the last \<^verbatim>\<open>extendBeams\<close>:
      three draws for the targets of the meal, then the four categories in order.\<close>
  "mealBeams rnd pool pc goalHint T n =
     (let beams = [empty_beam T];
          targets = mealTargets rnd T n;
          st = stage rnd pool pc goalHint targets protein 40 (beams, n + 3);
          st = stage rnd pool pc goalHint targets carb 60 st;
          st = stage rnd pool pc goalHint targets veg 60 st;
          st = stage rnd pool pc goalHint targets fat 60 st
      in st)"

definition within_tol :: "Targets \<Rightarrow> num \<Rightarrow> MealCombo \<Rightarrow> bool" where
  \<comment> \<open>The predicate of \<^verbatim>\<open>beams.filter\<close> in the final selection.\<close>
  "within_tol T tol b =
     (let okP = (\<bar>mc_totP b - t_Ppm T\<bar> \<le> t_Ppm T * tol);
          okC = (\<bar>mc_totC b - t_Cpm T\<bar> \<le> t_Cpm T * tol \<or> t_Cpm T < 15);
          okF = (\<bar>mc_totF b - t_Fpm T\<bar> \<le> t_Fpm T * tol \<or> t_Fpm T < 10)
      in okP \<and> okC \<and> okF)"

definition bestCombo :: "Targets \<Rightarrow> num \<Rightarrow> MealCombo list \<Rightarrow> MealCombo option" where
  "bestCombo T tol beams =
     (let withinTol = filter (within_tol T tol) beams;
          final = take 1 (js_sort (\<lambda>a b. mc_score a - mc_score b)
                            (if length withinTol > 0 then withinTol else beams))
      in case final of [] \<Rightarrow> None | b # _ \<Rightarrow> Some b)"

record MacroTotals =
  mt_p :: num
  mt_c :: num
  mt_f :: num
  mt_kcal :: num

record OutCombo =
  combo_label :: string
  oc_items :: "Item list"
  totals :: MacroTotals

record MealOptions =
  protein_opts :: "OutCombo list"
  carb_opts :: "OutCombo list"
  veg_opts :: "OutCombo list"
  fat_opts :: "OutCombo list"

definition formatItems :: "Item list \<Rightarrow> Item list" where
  "formatItems its =
     map (\<lambda>it. \<lparr>it_ingredientId = it_ingredientId it,
                 it_name = it_name it,
                 it_grams = js_round (it_grams it),
                 it_label = it_label it,
                 it_p = js_round (it_p it),
                 it_c = js_round (it_c it),
                 it_f = js_round (it_f it),
                 it_kcal = js_round (it_kcal it),
                 it_category = it_category it\<rparr>) its"

definition category_opts :: "string \<Rightarrow> Item list \<Rightarrow> OutCombo list" where
  "category_opts label its =
     (if length its > 0 then
        [\<lparr>combo_label = label,
          oc_items = formatItems its,
          totals = \<lparr>mt_p = js_round (foldl (\<lambda>sum it. sum + it_p it) 0 its),
                    mt_c = js_round (foldl (\<lambda>sum it. sum + it_c it) 0 its),
                    mt_f = js_round (foldl (\<lambda>sum it. sum + it_f it) 0 its),
                    mt_kcal = js_round (foldl (\<lambda>sum it. sum + it_kcal it) 0 its)\<rparr>\<rparr>]
      else [])"

definition formatMeal :: "MealCombo option \<Rightarrow> MealOptions" where
  "formatMeal best =
     (case best of
        None \<Rightarrow> \<lparr>protein_opts = [], carb_opts = [], veg_opts = [], fat_opts = []\<rparr>
      | Some b \<Rightarrow>
          (let proteinItems = filter (\<lambda>it. it_category it = protein) (mc_items b);
               carbItems = filter (\<lambda>it. it_category it = carb) (mc_items b);
               vegItems = filter (\<lambda>it. it_category it = veg) (mc_items b);
               fatItems = filter (\<lambda>it. it_category it = fat) (mc_items b)
           in \<lparr>protein_opts = category_opts ''Protein'' proteinItems,
               carb_opts = category_opts ''Carbs'' carbItems,
               veg_opts = category_opts ''Vegetables'' vegItems,
               fat_opts = category_opts ''Fats'' fatItems\<rparr>))"

fun meals_loop :: "(nat \<Rightarrow> num) \<Rightarrow> (Category \<Rightarrow> IngredientDocV2 list) \<Rightarrow> pcands \<Rightarrow> Goal \<Rightarrow> Targets \<Rightarrow> num \<Rightarrow> nat \<Rightarrow> nat \<Rightarrow> (MealCombo list \<times> MealCombo option) list \<times> nat" where
  \<comment> \<open>\<^verbatim>\<open>for (let mealIdx = 0; mealIdx < meals_per_day; mealIdx++)\<close>, the
      number of passes given first: for each meal, the beams that survive and the
      combination kept.\<close>
  "meals_loop rnd pool pc goalHint T tol 0 n = ([], n)"
| "meals_loop rnd pool pc goalHint T tol (Suc k) n =
     (let (beams, n1) = mealBeams rnd pool pc goalHint T n;
          (rest, n2) = meals_loop rnd pool pc goalHint T tol k n1
      in ((beams, bestCombo T tol beams) # rest, n2))"

record Macros =
  protein_g :: num
  fat_g :: num
  carb_g :: num

definition fetchIngredientsByTierV2 :: "IngredientDocV2 list \<Rightarrow> BudgetTier \<Rightarrow> IngredientDocV2 list" where
  \<comment> \<open>The query on the collection \<open>ingredients\<close>, given as \<open>docs\<close>.\<close>
  "fetchIngredientsByTierV2 docs tier = filter (\<lambda>i. ing_budget_tier i = tier) docs"

definition pools :: "IngredientDocV2 list \<Rightarrow> Category \<Rightarrow> IngredientDocV2 list" where
  "pools all cat = filter (\<lambda>i. ing_category i = cat) all"

definition tolerance :: "Strictness \<Rightarrow> num" where
  "tolerance strictness =
     (if strictness = tight then 0.07 else if strictness = loose then 0.15 else 0.10)"

definition perMealTargets :: "Macros \<Rightarrow> num \<Rightarrow> Targets" where
  \<comment> \<open>With no meal to build (\<^verbatim>\<open>meals_per_day\<close> not positive) the targets are
      not used for any meal.\<close>
  "perMealTargets macros meals_per_day =
     (let Ppm = protein_g macros / meals_per_day;
          Cpm = carb_g macros / meals_per_day;
          Fpm = fat_g macros / meals_per_day
      in \<lparr>t_Ppm = Ppm, t_Cpm = Cpm, t_Fpm = Fpm, t_Kpm = Ppm * 4 + Cpm * 4 + Fpm * 9\<rparr>)"

definition meal_passes :: "num \<Rightarrow> nat option" where
  \<comment> \<open>The passes of \<^verbatim>\<open>for (let mealIdx = 0; mealIdx < meals_per_day; mealIdx++)\<close>.
      The counter is a double: it counts exactly up to \<open>2 ^ 53\<close>, where adding 1
      rounds back to \<open>2 ^ 53\<close>, so for more meals than that the loop does not end.\<close>
  "meal_passes meals_per_day =
     (if meals_per_day \<le> 2 ^ 53 then Some (nat \<lceil>meals_per_day\<rceil>) else None)"

definition allocate :: "(nat \<Rightarrow> num) \<Rightarrow> IngredientDocV2 list \<Rightarrow> BudgetTier \<Rightarrow> Macros \<Rightarrow> num \<Rightarrow> Strictness \<Rightarrow> Goal \<Rightarrow> ((MealCombo list \<times> MealCombo option) list \<times> nat) option" where
  \<comment> \<open>\<^verbatim>\<open>buildIngredientPlan\<close> before the formatting of each meal, with the
      number of draws made; \<open>None\<close> when a loop does not end.\<close>
  "allocate rnd docs budget_tier macros meals_per_day strictness goalHint =
     (let all = fetchIngredientsByTierV2 docs budget_tier;
          pool = pools all;
          tol = tolerance strictness;
          T = perMealTargets macros meals_per_day
      in case precompute T pool of
           None \<Rightarrow> None
         | Some pc \<Rightarrow>
             (case meal_passes meals_per_day of
                None \<Rightarrow> None
              | Some k \<Rightarrow> Some (meals_loop rnd pool pc goalHint T tol k 0)))"

definition mealSelections :: "(nat \<Rightarrow> num) \<Rightarrow> IngredientDocV2 list \<Rightarrow> BudgetTier \<Rightarrow> Macros \<Rightarrow> num \<Rightarrow> Strictness \<Rightarrow> Goal \<Rightarrow> (MealCombo list \<times> MealCombo option) list option" where
  "mealSelections rnd docs budget_tier macros meals_per_day strictness goalHint =
     map_option fst (allocate rnd docs budget_tier macros meals_per_day strictness goalHint)"

definition buildIngredientPlan :: "(nat \<Rightarrow> num) \<Rightarrow> IngredientDocV2 list \<Rightarrow> BudgetTier \<Rightarrow> Macros \<Rightarrow> num \<Rightarrow> Strictness \<Rightarrow> Goal \<Rightarrow> MealOptions list option" where
  "buildIngredientPlan rnd docs budget_tier macros meals_per_day strictness goalHint =
     map_option (map (\<lambda>sel. formatMeal (snd sel)))
       (mealSelections rnd docs budget_tier macros meals_per_day strictness goalHint)"

section \<open>Notions used in the statements\<close>

text \<open>The ladder of accuracy bands, and a profile to which missing fields were added.\<close>

definition band_rank :: "Band \<Rightarrow> nat" where
  "band_rank b = (case b of low \<Rightarrow> 0 | med \<Rightarrow> 1 | high \<Rightarrow> 2 | highest \<Rightarrow> 3)"

definition adds_fields :: "IndexReqBase \<Rightarrow> IndexReqBase \<Rightarrow> bool" where
  "adds_fields p q =
     ((sex p = None \<or> sex q = sex p) \<and>
      (age_range p = None \<or> age_range q = age_range p) \<and>
      (\<not> not_null (height_cm p) \<or> height_cm q = height_cm p) \<and>
      (\<not> not_null (weight_kg p) \<or> weight_kg q = weight_kg p) \<and>
      (\<not> not_null (bodyfat_pct p) \<or> bodyfat_pct q = bodyfat_pct p) \<and>
      (\<not> not_null (waist_cm p) \<or> waist_cm q = waist_cm p))"

definition has_core :: "IndexReqBase \<Rightarrow> bool" where
  "has_core p = (not_null (height_cm p) \<and> not_null (weight_kg p)
     \<and> (case age_range p of None \<Rightarrow> False | Some s \<Rightarrow> s \<noteq> []) \<and> sex p \<noteq> None)"

text \<open>
  The exercises that pass the three filters of \<^verbatim>\<open>chooseExercise\<close>, the order
  in which they are ranked, and what the ranking needs of \<^verbatim>\<open>localeCompare\<close>: on
  the names of the catalog it compares any two names and is transitive.
\<close>

definition survivors :: "Platform \<Rightarrow> Equipment \<Rightarrow> string \<Rightarrow> string list \<Rightarrow> Exercise list" where
  "survivors pf equipment muscle injuries =
     [e \<leftarrow> exercises pf.
        muscle \<in> set (ex_muscles e)
        \<and> checkEquipmentCompatibility (ex_equipment e) equipment
        \<and> \<not> avoided (toLowerCase pf) injuries e]"

definition ranks_first :: "(string \<Rightarrow> string \<Rightarrow> num) \<Rightarrow> Exercise \<Rightarrow> Exercise \<Rightarrow> bool" where
  "ranks_first lc e e' =
     ((ex_movement e = compound \<and> ex_movement e' = isolation)
      \<or> (ex_movement e = ex_movement e' \<and> lc (ex_name e) (ex_name e') \<le> 0))"

definition consistent_on :: "(string \<Rightarrow> string \<Rightarrow> num) \<Rightarrow> string list \<Rightarrow> bool" where
  "consistent_on lc names =
     (\<forall>a \<in> set names. \<forall>b \<in> set names.
        (lc a b \<le> 0 \<or> lc b a \<le> 0)
        \<and> (\<forall>c \<in> set names. lc a b \<le> 0 \<and> lc b c \<le> 0 \<longrightarrow> lc a c \<le> 0))"

definition total_on :: "('a \<Rightarrow> 'a \<Rightarrow> num) \<Rightarrow> 'a set \<Rightarrow> bool" where
  "total_on cmp A = (\<forall>a \<in> A. \<forall>b \<in> A. cmp a b \<le> 0 \<or> cmp b a \<le> 0)"

definition trans_on' :: "('a \<Rightarrow> 'a \<Rightarrow> num) \<Rightarrow> 'a set \<Rightarrow> bool" where
  "trans_on' cmp A = (\<forall>a \<in> A. \<forall>b \<in> A. \<forall>c \<in> A. cmp a b \<le> 0 \<and> cmp b c \<le> 0 \<longrightarrow> cmp a c \<le> 0)"

definition musclesPerDay :: "num \<Rightarrow> num" where
  "musclesPerDay days =
     foldl (\<lambda>acc s. acc + of_nat (length (sp_muscles s))) 0 (splitByDays days)
       / of_nat (length (splitByDays days))"

text \<open>
  For \<^verbatim>\<open>adaptPlan\<close>: the blocks of a plan, the soreness entries of a request, the
  number of entries with a score of 4 or more that match a block, the sets of a block
  lowered \<open>k\<close> times, and the requests on which neither the rule of global fatigue nor
  the rule of low adherence fires.
\<close>

definition plan_blocks :: "CurrentPlan \<Rightarrow> PlanBlock list list" where
  "plan_blocks plan =
     map (\<lambda>w. case pd_blocks w of None \<Rightarrow> [] | Some bs \<Rightarrow> bs)
       (case cp_workouts plan of None \<Rightarrow> [] | Some ws \<Rightarrow> ws)"

definition sore_entries :: "AdaptReq \<Rightarrow> (string \<times> num) list" where
  "sore_entries body =
     (case readiness body of
        None \<Rightarrow> []
      | Some rd \<Rightarrow> (case soreness rd of None \<Rightarrow> [] | Some es \<Rightarrow> es))"

definition sore_hits :: "(string \<times> num) list \<Rightarrow> PlanBlock \<Rightarrow> nat" where
  "sore_hits es b = length (filter (\<lambda>e. snd e \<ge> 4 \<and> region_matches (fst e) b) es)"

definition lower_sets :: "nat \<Rightarrow> PlanBlock \<Rightarrow> PlanBlock" where
  "lower_sets k b =
     (if k = 0 then b else b\<lparr>pb_sets := Some (max 1 (sets_or_3 (pb_sets b) - of_nat k))\<rparr>)"

definition quiet :: "AdaptReq \<Rightarrow> bool" where
  "quiet body =
     (case readiness body of
        None \<Rightarrow> False
      | Some rd \<Rightarrow>
          \<not> (stress rd \<ge> 4 \<and> motivation rd \<le> 2)
          \<and> \<not> (case last_week_adherence_pct body of None \<Rightarrow> 100 | Some a \<Rightarrow> a) < 60)"



definition summed_protein :: "MealCombo \<Rightarrow> num" where
  "summed_protein b = sum_list (map it_p (mc_items b))"

definition no_meal :: MealOptions where
  "no_meal = \<lparr>protein_opts = [], carb_opts = [], veg_opts = [], fat_opts = []\<rparr>"

definition listed :: "OutCombo list \<Rightarrow> nat" where
  "listed opts = length (concat (map oc_items opts))"


definition one_of_each :: "Goal \<Rightarrow> MealOptions \<Rightarrow> bool" where
  "one_of_each goal meal =
     (listed (protein_opts meal) = 1 \<and> listed (veg_opts meal) = 1 \<and> listed (fat_opts meal) = 1
      \<and> (if goal = fat_loss then listed (carb_opts meal) \<le> 1 else listed (carb_opts meal) = 1))"

text \<open>
  What the allocator needs of the catalog. A whole count is a whole number of
  magnitude at most \<open>2 ^ 52\<close>: the sum of two of them is a double, so the counter of the
  loop over the pieces advances by its step. That loop ends for an ingredient sized in
  pieces whose least count, greatest count and step (with their defaults 1, 3 and 1)
  are whole counts and whose step is at least 1. An ingredient
  has a portion when the loop runs at least once (an ingredient sized in grams always
  has one). Names are told apart by category when no name is used in two categories.
  \<open>stocked\<close> and \<open>from_pool\<close> are the invariants of the search: the portions
  precomputed for a set of names, and the origin of the items of a combination.
\<close>

definition whole_count :: "num \<Rightarrow> bool" where
  "whole_count x = (x = of_int \<lfloor>x\<rfloor> \<and> \<bar>x\<bar> \<le> 2 ^ 52)"

definition portion_ends :: "IngredientDocV2 \<Rightarrow> bool" where
  "portion_ends ing =
     (pm_unit (or_else (ing_portion ing) no_portion) = Some unit_piece
      \<and> truthy (pm_grams_per_piece (or_else (ing_portion ing) no_portion))
      \<longrightarrow> whole_count (or_else (pm_min_pieces (or_else (ing_portion ing) no_portion)) 1)
          \<and> whole_count (or_else (pm_max_pieces (or_else (ing_portion ing) no_portion)) 3)
          \<and> whole_count (or_else (pm_step_pieces (or_else (ing_portion ing) no_portion)) 1)
          \<and> 1 \<le> or_else (pm_step_pieces (or_else (ing_portion ing) no_portion)) 1)"

definition portions_end :: "IngredientDocV2 list \<Rightarrow> bool" where
  "portions_end docs = (\<forall>ing \<in> set docs. portion_ends ing)"


definition names_by_category :: "IngredientDocV2 list \<Rightarrow> bool" where
  "names_by_category all =
     (\<forall>a \<in> set all. \<forall>b \<in> set all. ing_name a = ing_name b \<longrightarrow> ing_category a = ing_category b)"




text \<open>
  Two sequences of draws agree between two positions; \<open>draws_made\<close> is the number of
  calls of \<^verbatim>\<open>Math.random()\<close> that a run makes.
\<close>

definition agree :: "(nat \<Rightarrow> num) \<Rightarrow> (nat \<Rightarrow> num) \<Rightarrow> nat \<Rightarrow> nat \<Rightarrow> bool" where
  "agree r r' a b = (\<forall>i. a \<le> i \<and> i < b \<longrightarrow> r i = r' i)"

definition draws_made :: "(nat \<Rightarrow> num) \<Rightarrow> IngredientDocV2 list \<Rightarrow> BudgetTier \<Rightarrow> Macros \<Rightarrow> num \<Rightarrow> Strictness \<Rightarrow> Goal \<Rightarrow> nat" where
  "draws_made rnd docs budget_tier macros meals_per_day strictness goalHint =
     (case allocate rnd docs budget_tier macros meals_per_day strictness goalHint of
        None \<Rightarrow> 0
      | Some res \<Rightarrow> snd res)"

section \<open>Example inputs\<close>

definition mifflin_example :: IndexReqBase where
  "mifflin_example = \<lparr>sex = Some male, age_range = Some (''25'' @ en_dash @ ''34''), height_cm = Number 175,
     weight_kg = Number 75, bodyfat_pct = Undefined, waist_cm = Undefined, overrides = None\<rparr>"

definition mifflin_response :: RecalcRes where
  "mifflin_response = \<lparr>r_BMR = Some 1704, r_method = mifflin_m, r_TDEE = Some 2641,
        r_BMI = Some 24.5, r_WHtR = None, r_FFMI = None,
        r_accuracy = med, r_next_best_input = Some ''bodyfat_pct'',
        r_warnings = []\<rparr>"

definition zero_bmr_response :: RecalcRes where
  "zero_bmr_response = \<lparr>r_BMR = Some 0, r_method = mifflin_m, r_TDEE = None,
        r_BMI = Some 441.7, r_WHtR = None, r_FFMI = None,
        r_accuracy = med, r_next_best_input = Some ''bodyfat_pct'',
        r_warnings = []\<rparr>"

definition zero_bmr_example :: IndexReqBase where
  "zero_bmr_example = \<lparr>sex = Some female, age_range = Some (''25'' @ en_dash @ ''34''),
     height_cm = Number 20.1875, weight_kg = Number 18, bodyfat_pct = Undefined,
     waist_cm = Undefined,
     overrides = None\<rparr>"

definition override_example :: IndexReqBase where
  "override_example = mifflin_example\<lparr>overrides := Some \<lparr>ov_BMR = Some 2500, ov_TDEE = None, ov_BMI = None\<rparr>\<rparr>"

fun byte_compare :: "string \<Rightarrow> string \<Rightarrow> num" where
  "byte_compare [] [] = 0"
| "byte_compare [] (b # t) = - 1"
| "byte_compare (a # s) [] = 1"
| "byte_compare (a # s) (b # t) =
     (if (of_char a :: nat) < of_char b then - 1
      else if (of_char b :: nat) < of_char a then 1
      else byte_compare s t)"

definition ascii_lower :: "string \<Rightarrow> string" where
  "ascii_lower s =
     map (\<lambda>ch. if 65 \<le> (of_char ch :: nat) \<and> (of_char ch :: nat) \<le> 90
                then char_of (of_char ch + 32 :: nat) else ch) s"

definition example_exercises :: "Exercise list" where
  "example_exercises =
     [\<lparr>ex_id = ''cable_fly'', ex_name = ''Cable Fly'', ex_muscles = [''chest''],
       ex_equipment = [''cable''], ex_movement = isolation,
       ex_cues = [], ex_regressions = [], ex_progressions = []\<rparr>,
      \<lparr>ex_id = ''pushup'', ex_name = ''Push-up'', ex_muscles = [''chest'', ''triceps''],
       ex_equipment = [''bodyweight''], ex_movement = compound,
       ex_cues = [], ex_regressions = [], ex_progressions = []\<rparr>,
      \<lparr>ex_id = ''bench_press'', ex_name = ''Bench Press'', ex_muscles = [''chest'', ''triceps''],
       ex_equipment = [''barbell''], ex_movement = compound,
       ex_cues = [], ex_regressions = [], ex_progressions = []\<rparr>,
      \<lparr>ex_id = ''db_incline'', ex_name = ''Incline Dumbbell Press'', ex_muscles = [''upper_chest'', ''chest''],
       ex_equipment = [''dumbbell''], ex_movement = compound,
       ex_cues = [], ex_regressions = [], ex_progressions = []\<rparr>]"

definition example_platform :: Platform where
  "example_platform = \<lparr>localeCompare = byte_compare, toLowerCase = ascii_lower,
     exercises = example_exercises\<rparr>"

definition example_day :: DayPlan where
  "example_day = buildWorkouts example_platform 3 intermediate hypertrophy full_gym [] ! 0"

definition example_block :: WorkoutBlock where
  "example_block = dp_blocks example_day ! 0"

definition sore_plan :: CurrentPlan where
  "sore_plan = \<lparr>cp_workouts = Some [\<lparr>pd_blocks = Some
       [\<lparr>pb_muscle = ''upper_chest'', pb_sets = Some 5, pb_rir = Some ''1''\<rparr>,
        \<lparr>pb_muscle = ''back'', pb_sets = Some 5, pb_rir = Some ''1''\<rparr>]\<rparr>],
     cp_kcal = Some 2500\<rparr>"

definition sore_req :: "CurrentPlan \<Rightarrow> AdaptReq" where
  "sore_req plan = \<lparr>current_plan = Some plan,
     readiness = Some \<lparr>sleep_h = 8, soreness = Some [(''chest'', 4), (''upper_chest'', 4)],
                       stress = 1, motivation = 5\<rparr>,
     last_week_adherence_pct = None, weight_trend_2w = None\<rparr>"

definition chest_plan :: "num \<Rightarrow> CurrentPlan" where
  "chest_plan n = \<lparr>cp_workouts = Some [\<lparr>pd_blocks = Some
       [\<lparr>pb_muscle = ''chest'', pb_sets = Some n, pb_rir = Some ''1''\<rparr>,
        \<lparr>pb_muscle = ''back'', pb_sets = Some 5, pb_rir = Some ''1''\<rparr>]\<rparr>],
     cp_kcal = Some 2500\<rparr>"

definition chest_req :: "CurrentPlan \<Rightarrow> AdaptReq" where
  "chest_req plan = \<lparr>current_plan = Some plan,
     readiness = Some \<lparr>sleep_h = 8, soreness = Some [(''chest'', 4), (''quads'', 2)],
                       stress = 1, motivation = 5\<rparr>,
     last_week_adherence_pct = None, weight_trend_2w = None\<rparr>"

definition chest_log :: "piece list list" where
  "chest_log = [[Lit ''chest'', Lit '' -1 set (soreness '', Num 4, Lit '').'']]"

definition fixed_portion :: "num \<Rightarrow> PortionMeta" where
  "fixed_portion g = no_portion\<lparr>pm_min_g := Some g, pm_max_g := Some g\<rparr>"

definition example_ingredients :: "IngredientDocV2 list" where
  "example_ingredients =
     [\<lparr>ing_id = Some ''egg'', ing_name = ''Egg'', ing_category = protein,
       ing_macro_per_100g = \<lparr>m_kcal = 48, m_p = 12, m_c = 0, m_f = 0\<rparr>,
       ing_typical_portion_g = None, ing_budget_tier = tier_medium, ing_notes = None,
       ing_portion = Some (no_portion\<lparr>pm_unit := Some unit_piece, pm_grams_per_piece := Some 50\<rparr>),
       ing_availability_score = None\<rparr>,
      \<lparr>ing_id = Some ''rice'', ing_name = ''Rice'', ing_category = carb,
       ing_macro_per_100g = \<lparr>m_kcal = 120, m_p = 0, m_c = 30, m_f = 0\<rparr>,
       ing_typical_portion_g = Some 100, ing_budget_tier = tier_medium, ing_notes = None,
       ing_portion = Some (fixed_portion 100), ing_availability_score = None\<rparr>,
      \<lparr>ing_id = Some ''broccoli'', ing_name = ''Broccoli'', ing_category = veg,
       ing_macro_per_100g = \<lparr>m_kcal = 20, m_p = 0, m_c = 5, m_f = 0\<rparr>,
       ing_typical_portion_g = Some 100, ing_budget_tier = tier_medium, ing_notes = None,
       ing_portion = Some (fixed_portion 100), ing_availability_score = None\<rparr>,
      \<lparr>ing_id = Some ''olive_oil'', ing_name = ''Olive oil'', ing_category = fat,
       ing_macro_per_100g = \<lparr>m_kcal = 900, m_p = 0, m_c = 0, m_f = 100\<rparr>,
       ing_typical_portion_g = Some 10, ing_budget_tier = tier_medium, ing_notes = None,
       ing_portion = Some (fixed_portion 10), ing_availability_score = None\<rparr>]"


definition no_pieces_ingredients :: "IngredientDocV2 list" where
  \<comment> \<open>The example catalog, the egg with \<^verbatim>\<open>min_pieces\<close> 4 above the default
      \<^verbatim>\<open>max_pieces\<close> 3.\<close>
  "no_pieces_ingredients =
     (example_ingredients
        [0 := (example_ingredients ! 0)\<lparr>ing_portion := Some (no_portion\<lparr>pm_unit := Some unit_piece,
            pm_grams_per_piece := Some 50, pm_min_pieces := Some 4\<rparr>)\<rparr>])"

definition example_macros :: "num \<Rightarrow> Macros" where
  "example_macros p = \<lparr>protein_g = p, fat_g = 10, carb_g = 35\<rparr>"

definition draws_low :: "nat \<Rightarrow> num" where
  "draws_low n = 0"

definition draws_high :: "nat \<Rightarrow> num" where
  "draws_high n = 9 / 10"

definition draws_mixed :: "nat \<Rightarrow> num" where
  "draws_mixed n = (if n < 13 then 9 / 10 else 0)"

definition example_sels :: "(MealCombo list \<times> MealCombo option) list" where
  "example_sels =
     (case mealSelections draws_high example_ingredients tier_medium (example_macros 12) 1 normal recomp
      of None \<Rightarrow> [] | Some s \<Rightarrow> s)"

definition two_eggs :: MealCombo where
  "two_eggs =
     \<lparr>mc_items =
        [\<lparr>it_ingredientId = ''egg'', it_name = ''Egg'', it_grams = 100,
            it_label = Some [Num 2, Lit '' pcs''], it_p = 12, it_c = 0,
            it_f = 0, it_kcal = 48, it_category = protein\<rparr>,
         \<lparr>it_ingredientId = ''rice'', it_name = ''Rice'', it_grams = 100,
            it_label = None, it_p = 0, it_c = 30, it_f = 0, it_kcal = 120,
            it_category = carb\<rparr>,
         \<lparr>it_ingredientId = ''broccoli'', it_name = ''Broccoli'',
            it_grams = 100, it_label = None, it_p = 0, it_c = 5, it_f = 0,
            it_kcal = 20, it_category = veg\<rparr>,
         \<lparr>it_ingredientId = ''olive_oil'', it_name = ''Olive oil'',
            it_grams = 10, it_label = None, it_p = 0, it_c = 0, it_f = 10,
            it_kcal = 90, it_category = fat\<rparr>],
        mc_totP = 12, mc_totC = 35, mc_totF = 10, mc_totK = 278,
        mc_score = scoreCombo 12 35 10 (12 * (1 + (9 / 10 - 0.5) * 0.15))
           (35 * (1 + (9 / 10 - 0.5) * 0.15)) (10 * (1 + (9 / 10 - 0.5) * 0.15))
           (12 * (1 + (9 / 10 - 0.5) * 0.15) * 4 + 35 * (1 + (9 / 10 - 0.5) * 0.15) * 4
              + 10 * (1 + (9 / 10 - 0.5) * 0.15) * 9) 0.05\<rparr>"

section \<open>Index calculator: properties\<close>

text \<open>
  Claim C1, as stated: for the male profile of 75 kg, 175 cm and age range 25--34 the
  BMR is exactly 1730. It is not: the value differs from 1730.
\<close>

theorem mifflin_example_not_1730: "i_BMR (computeIndexes male (''25'' @ en_dash @ ''34'') mifflin_example) \<noteq> Some 1730"
  by code_simp

text \<open>
  Claim C1, amended: for that profile, with no body fat and no overrides, the BMR is
  the Mifflin value \<open>10 * 75 + 6.25 * 175 - 5 * 29 + 5 = 1703.75\<close> rounded, which is
  1704, and the method is Mifflin.
\<close>

theorem mifflin_example_bmr: "i_BMR (computeIndexes male (''25'' @ en_dash @ ''34'') mifflin_example)
     = Some (js_round (10 * 75 + 6.25 * 175 - 5 * 29 + 5))
   \<and> js_round (10 * 75 + 6.25 * 175 - 5 * 29 + 5) = 1704
   \<and> i_method (computeIndexes male (''25'' @ en_dash @ ''34'') mifflin_example) = mifflin_m"
  by code_simp

lemma accuracy_ladder:
  "accuracy (accuracyBand p) =
     (if has_core p \<and> not_null (bodyfat_pct p) \<and> not_null (waist_cm p) then highest
      else if has_core p \<and> not_null (bodyfat_pct p) then high
      else if has_core p then med else low)"
  unfolding accuracyBand_def has_core_def Let_def by auto

lemma adds_fields_core: "adds_fields p q \<Longrightarrow> has_core p \<Longrightarrow> has_core q"
  unfolding adds_fields_def has_core_def by (cases "age_range p") auto

lemma adds_fields_bodyfat:
  "adds_fields p q \<Longrightarrow> not_null (bodyfat_pct p) \<Longrightarrow> not_null (bodyfat_pct q)"
  unfolding adds_fields_def by auto

lemma adds_fields_waist:
  "adds_fields p q \<Longrightarrow> not_null (waist_cm p) \<Longrightarrow> not_null (waist_cm q)"
  unfolding adds_fields_def by auto

text \<open>
  Claim C7: adding fields that were missing to a profile (sex, age range, height,
  weight, body fat, waist) never lowers the accuracy band on the ladder
  low, med, high, highest.
\<close>

theorem accuracyBand_monotone:
  assumes "adds_fields p q"
  shows "band_rank (accuracy (accuracyBand p)) \<le> band_rank (accuracy (accuracyBand q))"
proof -
  note c = adds_fields_core [OF assms] and b = adds_fields_bodyfat [OF assms]
    and w = adds_fields_waist [OF assms]
  show ?thesis
  proof (cases "has_core p")
    case False
    then show ?thesis by (simp add: accuracy_ladder band_rank_def)
  next
    case True
    with c have q: "has_core q" by simp
    show ?thesis
    proof (cases "not_null (bodyfat_pct p)")
      case False
      with \<open>has_core p\<close> q show ?thesis by (simp add: accuracy_ladder band_rank_def)
    next
      case True
      with b have "not_null (bodyfat_pct q)" by simp
      with True \<open>has_core p\<close> q w show ?thesis
        by (cases "not_null (waist_cm p)") (simp_all add: accuracy_ladder band_rank_def)
    qed
  qed
qed

text \<open>Claim C7, witness: adding the body fat to the example profile moves it from med to high.\<close>

theorem accuracyBand_monotone_witness:
  "adds_fields mifflin_example (mifflin_example\<lparr>bodyfat_pct := Number 15\<rparr>)
   \<and> accuracy (accuracyBand mifflin_example) = med
   \<and> accuracy (accuracyBand (mifflin_example\<lparr>bodyfat_pct := Number 15\<rparr>)) = high
   \<and> band_rank (accuracy (accuracyBand mifflin_example))
      \<le> band_rank (accuracy (accuracyBand (mifflin_example\<lparr>bodyfat_pct := Number 15\<rparr>)))"
proof -
  have h: "adds_fields mifflin_example (mifflin_example\<lparr>bodyfat_pct := Number 15\<rparr>)"
    by code_simp
  have a: "accuracy (accuracyBand mifflin_example) = med" by code_simp
  have b: "accuracy (accuracyBand (mifflin_example\<lparr>bodyfat_pct := Number 15\<rparr>)) = high" by code_simp
  from accuracyBand_monotone [OF h] h a b show ?thesis by blast
qed

text \<open>
  Claim C10, as stated: whenever the BMR is computed and no TDEE override is given,
  the TDEE returned is \<open>round (BMR * 1.55)\<close>. For a profile whose Mifflin value rounds
  to 0 the BMR returned is 0 and no TDEE is returned.
\<close>

theorem recalc_TDEE_zero_bmr:
  "map_sum id r_BMR (recalculateIndexes zero_bmr_example) = Inr (Some 0)
   \<and> map_sum id r_TDEE (recalculateIndexes zero_bmr_example) = Inr None
   \<and> map_sum id r_TDEE (recalculateIndexes zero_bmr_example) \<noteq> Inr (Some (js_round (0 * 1.55)))"
  by code_simp

lemma activityMultiplier_3: "activityMultiplier 3 = 1.55"
  by code_simp

lemma computeTDEE_3:
  "computeTDEE BMR (Some 3) None =
     (case BMR of
        None \<Rightarrow> None
      | Some b \<Rightarrow> if b = 0 then None else Some (js_round (b * 1.55)))"
  by (simp add: computeTDEE_def truthy_def activityMultiplier_3 split: option.split)

lemma recalc_Inr:
  assumes "recalculateIndexes body = Inr res"
  obtains sx ar where "sex body = Some sx" "age_range body = Some ar"
    "r_BMR res = i_BMR (computeIndexes sx ar body)"
    "r_TDEE res = computeTDEE (i_BMR (computeIndexes sx ar body)) (Some 3)
        (ov_TDEE (i_overrides (computeIndexes sx ar body)))"
  using assms unfolding recalculateIndexes_def
  by (auto simp: Let_def split: option.splits if_splits)

lemma computeIndexes_overrides:
  "i_overrides (computeIndexes sx ar body)
     = (case overrides body of None \<Rightarrow> no_overrides | Some ov \<Rightarrow> ov)"
  by (simp add: computeIndexes_def Let_def split: prod.splits)

text \<open>
  Claim C10, amended: for every call of \<^verbatim>\<open>recalculateIndexes\<close> that succeeds and
  has no TDEE override, the TDEE returned is \<open>round (BMR * 1.55)\<close>, the multiplier of
  three training days, when the BMR returned is a number other than 0, and it is null
  when the BMR returned is 0 or null.
\<close>

theorem recalc_TDEE:
  assumes "recalculateIndexes body = Inr res"
    and "case overrides body of None \<Rightarrow> True | Some ov \<Rightarrow> ov_TDEE ov = None"
  shows "r_TDEE res =
     (case r_BMR res of
        None \<Rightarrow> None
      | Some b \<Rightarrow> if b = 0 then None else Some (js_round (b * 1.55)))"
proof -
  from assms(1) obtain sx ar where
    B: "r_BMR res = i_BMR (computeIndexes sx ar body)" and
    T: "r_TDEE res = computeTDEE (i_BMR (computeIndexes sx ar body)) (Some 3)
        (ov_TDEE (i_overrides (computeIndexes sx ar body)))"
    by (rule recalc_Inr)
  have "ov_TDEE (i_overrides (computeIndexes sx ar body)) = None"
    using assms(2) by (simp add: computeIndexes_overrides no_overrides_def split: option.splits)
  with B T have "r_TDEE res = computeTDEE (r_BMR res) (Some 3) None" by simp
  then show ?thesis by (simp only: computeTDEE_3)
qed

text \<open>
  Claim C10, witness: the example profile, with BMR 1704 and TDEE 2641, and the profile
  whose BMR is 0, with no TDEE.
\<close>

theorem recalc_TDEE_witness:
  "recalculateIndexes mifflin_example = Inr mifflin_response
   \<and> r_BMR mifflin_response = Some 1704
   \<and> r_TDEE mifflin_response = Some (js_round (1704 * 1.55))
   \<and> js_round (1704 * 1.55) = 2641
   \<and> recalculateIndexes zero_bmr_example = Inr zero_bmr_response
   \<and> r_BMR zero_bmr_response = Some 0
   \<and> r_TDEE zero_bmr_response = None"
proof -
  have e: "recalculateIndexes mifflin_example = Inr mifflin_response" by code_simp
  have o: "case overrides mifflin_example of None \<Rightarrow> True | Some ov \<Rightarrow> ov_TDEE ov = None"
    by code_simp
  have b: "r_BMR mifflin_response = Some 1704" by code_simp
  have r: "js_round (1704 * 1.55) = 2641" by code_simp
  have e': "recalculateIndexes zero_bmr_example = Inr zero_bmr_response" by code_simp
  have o': "case overrides zero_bmr_example of None \<Rightarrow> True | Some ov \<Rightarrow> ov_TDEE ov = None"
    by code_simp
  have b': "r_BMR zero_bmr_response = Some 0" by code_simp
  have t: "r_TDEE mifflin_response = Some (js_round (1704 * 1.55))"
    using recalc_TDEE [OF e o] b by simp
  have t': "r_TDEE zero_bmr_response = None"
    using recalc_TDEE [OF e' o'] b' by simp
  from e b t r e' b' t' show ?thesis by blast
qed

text \<open>
  Claim C3 says that an override more than 15% away from the computed value yields a
  warning. The handler passes to \<^verbatim>\<open>detectOverrideWarnings\<close> the value that the
  override has already replaced: with a BMR override of 2500 against a computed 1704
  the list of warnings is empty, although the check itself, given both values, warns.
\<close>

theorem override_warning_missed:
  "map_sum id r_warnings (recalculateIndexes override_example) = Inr []
   \<and> mifflin male (Some 75) (Some 175) (Some 29) = Some 1704
   \<and> \<bar>2500 - 1704\<bar> / 1704 > (0.15 :: rat)
   \<and> detectOverrideWarnings (Some 1704) (Some 2500) ''BMR'' \<noteq> []"
  by code_simp

section \<open>Workout builder: properties\<close>

lemma js_round_le: "x \<le> of_int n \<Longrightarrow> js_round x \<le> of_int n"
  unfolding js_round_def by (simp add: floor_le_iff)

lemma setsTarget_range: "6 \<le> setsTarget e g \<and> setsTarget e g \<le> 22"
  unfolding setsTarget_def clamp_def Let_def by (simp split: prod.splits)

lemma musclesPerDay_ge_1: "1 \<le> musclesPerDay days"
  unfolding musclesPerDay_def splitByDays_def Let_def by simp

lemma setsPerMuscle_range:
  "3 \<le> setsPerMuscle days e g \<and> setsPerMuscle days e g \<le> 22"
proof -
  let ?t = "setsTarget e g" and ?m = "musclesPerDay days"
  have t: "6 \<le> ?t" "?t \<le> 22" using setsTarget_range [of e g] by simp_all
  have m: "1 \<le> ?m" by (rule musclesPerDay_ge_1)
  have "?t / ?m \<le> ?t" using t m by (simp add: divide_le_eq)
  with t have "?t / ?m \<le> of_int 22" by simp
  then have "js_round (?t / ?m) \<le> of_int 22" by (rule js_round_le)
  then show ?thesis
    unfolding setsPerMuscle_def musclesPerDay_def Let_def by simp
qed

lemma REP_RANGES_ordered: "fst (REP_RANGES st e) \<le> snd (REP_RANGES st e)"
  by (cases st; cases e) simp_all

lemma buildWorkouts_block:
  assumes "d \<in> set (buildWorkouts pf days e g eq injuries)" and "b \<in> set (dp_blocks d)"
  shows "b_sets b = setsPerMuscle days e g
    \<and> b_reps b = nat_str (fst (REP_RANGES (goal_style g) e)) @ en_dash
                   @ nat_str (snd (REP_RANGES (goal_style g) e))"
proof -
  let ?mk = "make_block (setsPerMuscle days e g) (REP_RANGES (goal_style g) e)
        (RIR_BY_EXPERIENCE (goal_style g) e) (REST_TIMES e) (PROGRESSION_HINTS e)"
  from assms(1) obtain s :: DaySplit where
    "d = \<lparr>dp_day = sp_day s,
           dp_blocks = map ?mk (selectExercises pf eq injuries (sp_muscles s))\<rparr>"
    unfolding buildWorkouts_def Let_def by auto
  then have "dp_blocks d = map ?mk (selectExercises pf eq injuries (sp_muscles s))"
    by simp
  with assms(2) obtain entry where
    "b = make_block (setsPerMuscle days e g) (REP_RANGES (goal_style g) e)
        (RIR_BY_EXPERIENCE (goal_style g) e) (REST_TIMES e) (PROGRESSION_HINTS e) entry"
    by auto
  then show ?thesis by (cases entry) (simp add: make_block_def)
qed

text \<open>
  Claim C6: every block of every day that \<^verbatim>\<open>buildWorkouts\<close> returns has its sets
  between 3 and 22, and its reps are the text of two numbers \<open>lo \<le> hi\<close> with an en
  dash between them.
\<close>

theorem buildWorkouts_sets_reps:
  assumes "d \<in> set (buildWorkouts pf days e g eq injuries)" and "b \<in> set (dp_blocks d)"
  shows "3 \<le> b_sets b \<and> b_sets b \<le> 22
    \<and> (\<exists>lo hi. lo \<le> hi \<and> b_reps b = nat_str lo @ en_dash @ nat_str hi)"
proof -
  from buildWorkouts_block [OF assms] have
    s: "b_sets b = setsPerMuscle days e g" and
    r: "b_reps b = nat_str (fst (REP_RANGES (goal_style g) e)) @ en_dash
                   @ nat_str (snd (REP_RANGES (goal_style g) e))" by simp_all
  from r REP_RANGES_ordered have "\<exists>lo hi. lo \<le> hi \<and> b_reps b = nat_str lo @ en_dash @ nat_str hi"
    by blast
  with s setsPerMuscle_range show ?thesis by simp
qed

text \<open>Claim C6, witness: the first block of the first day of a three-day plan.\<close>

theorem buildWorkouts_sets_reps_witness:
  "example_day \<in> set (buildWorkouts example_platform 3 intermediate hypertrophy full_gym [])
   \<and> example_block \<in> set (dp_blocks example_day)
   \<and> b_exerciseId example_block = ''bench_press''
   \<and> b_sets example_block = 4
   \<and> b_reps example_block = ''6'' @ en_dash @ ''12''
   \<and> 3 \<le> b_sets example_block \<and> b_sets example_block \<le> 22
   \<and> (\<exists>lo hi. lo \<le> hi \<and> b_reps example_block = nat_str lo @ en_dash @ nat_str hi)"
proof -
  have d: "example_day \<in> set (buildWorkouts example_platform 3 intermediate hypertrophy full_gym [])"
    by code_simp
  have b: "example_block \<in> set (dp_blocks example_day)" by code_simp
  have v: "b_exerciseId example_block = ''bench_press''" "b_sets example_block = 4"
    "b_reps example_block = ''6'' @ en_dash @ ''12''" by code_simp+
  from buildWorkouts_sets_reps [OF d b] d b v show ?thesis by blast
qed

lemma set_insert_by: "set (insert_by cmp x ys) = insert x (set ys)"
  by (induction ys) auto

lemma js_sort_Cons: "js_sort cmp (x # xs) = insert_by cmp x (js_sort cmp xs)"
  by (simp add: js_sort_def)

lemma js_sort_Nil: "js_sort cmp [] = []"
  by (simp add: js_sort_def)

lemma set_js_sort: "set (js_sort cmp xs) = set xs"
  by (induction xs) (simp_all add: js_sort_Nil js_sort_Cons set_insert_by)

lemma length_insert_by: "length (insert_by cmp x ys) = Suc (length ys)"
  by (induction ys) auto

lemma length_js_sort: "length (js_sort cmp xs) = length xs"
  by (induction xs) (simp_all add: js_sort_Nil js_sort_Cons length_insert_by)

lemma sorted_insert_by:
  assumes "total_on cmp A" "trans_on' cmp A" "x \<in> A" "set ys \<subseteq> A"
    and "sorted_wrt (\<lambda>a b. cmp a b \<le> 0) ys"
  shows "sorted_wrt (\<lambda>a b. cmp a b \<le> 0) (insert_by cmp x ys)"
  using assms(4,5)
proof (induction ys)
  case Nil
  show ?case by simp
next
  case (Cons y ys)
  show ?case
  proof (cases "cmp x y \<le> 0")
    case True
    have "cmp x z \<le> 0" if "z \<in> set ys" for z
    proof -
      from Cons.prems that have "cmp y z \<le> 0" "z \<in> A" "y \<in> A" by auto
      with True assms(2,3) show ?thesis unfolding trans_on'_def by blast
    qed
    with True Cons.prems show ?thesis by auto
  next
    case False
    from Cons.prems have "y \<in> A" by simp
    with False assms(1,3) have yx: "cmp y x \<le> 0" unfolding total_on_def by blast
    from Cons have "sorted_wrt (\<lambda>a b. cmp a b \<le> 0) (insert_by cmp x ys)" by simp
    with False yx Cons.prems show ?thesis by (auto simp: set_insert_by)
  qed
qed

lemma sorted_js_sort:
  assumes "total_on cmp A" "trans_on' cmp A" "set xs \<subseteq> A"
  shows "sorted_wrt (\<lambda>a b. cmp a b \<le> 0) (js_sort cmp xs)"
  using assms(3)
proof (induction xs)
  case Nil
  show ?case by (simp add: js_sort_Nil)
next
  case (Cons x xs)
  then have "sorted_wrt (\<lambda>a b. cmp a b \<le> 0) (js_sort cmp xs)" "x \<in> A" "set (js_sort cmp xs) \<subseteq> A"
    by (simp_all add: set_js_sort)
  with assms(1,2) show ?case
    by (simp add: js_sort_Cons sorted_insert_by)
qed

lemma js_sort_head_least:
  assumes "total_on cmp A" "trans_on' cmp A" "set xs \<subseteq> A" "js_sort cmp xs = e # rest"
  shows "e \<in> set xs \<and> (\<forall>e' \<in> set xs. cmp e e' \<le> 0)"
proof -
  from assms(4) have s: "set xs = insert e (set rest)"
    using set_js_sort [of cmp xs] by simp
  then have eA: "e \<in> A" using assms(3) by auto
  from sorted_js_sort [OF assms(1-3)] assms(4) have "\<forall>e' \<in> set rest. cmp e e' \<le> 0" by simp
  moreover from assms(1) eA have "cmp e e \<le> 0" unfolding total_on_def by blast
  ultimately show ?thesis using s by auto
qed

lemma exercise_cmp_le:
  "exercise_cmp lc a b \<le> 0 \<longleftrightarrow> ranks_first lc a b"
  unfolding exercise_cmp_def ranks_first_def
  by (cases "ex_movement a"; cases "ex_movement b") simp_all

lemma exercise_total:
  assumes "consistent_on lc names" and "ex_name ` A \<subseteq> set names"
  shows "total_on (exercise_cmp lc) A"
  unfolding total_on_def
proof (intro ballI)
  fix a b assume "a \<in> A" "b \<in> A"
  with assms have "lc (ex_name a) (ex_name b) \<le> 0 \<or> lc (ex_name b) (ex_name a) \<le> 0"
    unfolding consistent_on_def by blast
  then show "exercise_cmp lc a b \<le> 0 \<or> exercise_cmp lc b a \<le> 0"
    unfolding exercise_cmp_le ranks_first_def
    by (cases "ex_movement a"; cases "ex_movement b") auto
qed

lemma exercise_trans:
  assumes "consistent_on lc names" and "ex_name ` A \<subseteq> set names"
  shows "trans_on' (exercise_cmp lc) A"
  unfolding trans_on'_def
proof (intro ballI impI)
  fix a b c assume m: "a \<in> A" "b \<in> A" "c \<in> A"
    and h: "exercise_cmp lc a b \<le> 0 \<and> exercise_cmp lc b c \<le> 0"
  from m assms have t: "lc (ex_name a) (ex_name b) \<le> 0 \<and> lc (ex_name b) (ex_name c) \<le> 0
      \<longrightarrow> lc (ex_name a) (ex_name c) \<le> 0"
    unfolding consistent_on_def by blast
  from h t show "exercise_cmp lc a c \<le> 0"
    unfolding exercise_cmp_le ranks_first_def
    by (cases "ex_movement a"; cases "ex_movement b"; cases "ex_movement c") auto
qed

lemma candidate_iff:
  "candidate lower eq m injs e \<longleftrightarrow>
     m \<in> set (ex_muscles e) \<and> checkEquipmentCompatibility (ex_equipment e) eq
     \<and> \<not> avoided lower injs e"
  by (simp add: candidate_def)

text \<open>
  Claim C8: \<^verbatim>\<open>chooseExercise\<close> keeps the exercises of the catalog that list the
  muscle, are compatible with the equipment and contain no avoid-token of the injuries
  in their id or (lower-cased) name. If none is left it returns the muscle followed by
  \<open>_fallback_exercise\<close>; otherwise it returns the id of a survivor that ranks first
  against every survivor: compound before isolation, then by name.
\<close>

theorem chooseExercise_ranked:
  assumes "consistent_on (localeCompare pf) (map ex_name (exercises pf))"
  shows "(survivors pf eq m injs = [] \<longrightarrow>
            chooseExercise pf eq m injs = m @ ''_fallback_exercise'')
       \<and> (survivors pf eq m injs \<noteq> [] \<longrightarrow>
            (\<exists>e \<in> set (survivors pf eq m injs).
                chooseExercise pf eq m injs = ex_id e
              \<and> (\<forall>e' \<in> set (survivors pf eq m injs). ranks_first (localeCompare pf) e e')))"
proof -
  let ?c = "survivors pf eq m injs" and ?cmp = "exercise_cmp (localeCompare pf)"
  have c: "filter (candidate (toLowerCase pf) eq m injs) (exercises pf) = ?c"
    unfolding survivors_def by (rule filter_cong) (simp_all add: candidate_iff)
  have ch: "chooseExercise pf eq m injs =
      (case js_sort ?cmp ?c of [] \<Rightarrow> m @ ''_fallback_exercise'' | e # _ \<Rightarrow> ex_id e)"
    unfolding chooseExercise_def Let_def c ..
  have n: "ex_name ` set ?c \<subseteq> set (map ex_name (exercises pf))"
    unfolding survivors_def by auto
  note tot = exercise_total [OF assms n] and tr = exercise_trans [OF assms n]
  show ?thesis
  proof (cases "?c = []")
    case True
    then show ?thesis by (simp add: ch js_sort_Nil)
  next
    case False
    then have "js_sort ?cmp ?c \<noteq> []"
      using length_js_sort [of ?cmp ?c] by auto
    then obtain e rest where e: "js_sort ?cmp ?c = e # rest" by (cases "js_sort ?cmp ?c") auto
    from js_sort_head_least [OF tot tr subset_refl e]
    have "e \<in> set ?c" "\<forall>e' \<in> set ?c. ranks_first (localeCompare pf) e e'"
      by (simp_all add: exercise_cmp_le)
    moreover have "chooseExercise pf eq m injs = ex_id e" by (simp add: ch e)
    ultimately show ?thesis using False by blast
  qed
qed

text \<open>
  Claim C8, witness: on the example catalog, bands only with a wrist injury leaves no
  candidate for the chest; a full gym leaves four, and the bench press is chosen.
\<close>

theorem chooseExercise_ranked_witness:
  "consistent_on (localeCompare example_platform) (map ex_name (exercises example_platform))
   \<and> survivors example_platform bands_only ''chest'' [''wrist''] = []
   \<and> chooseExercise example_platform bands_only ''chest'' [''wrist''] = ''chest_fallback_exercise''
   \<and> map ex_id (survivors example_platform full_gym ''chest'' []) 
        = [''cable_fly'', ''pushup'', ''bench_press'', ''db_incline'']
   \<and> chooseExercise example_platform full_gym ''chest'' [] = ''bench_press''
   \<and> (\<exists>e \<in> set (survivors example_platform full_gym ''chest'' []).
         chooseExercise example_platform full_gym ''chest'' [] = ex_id e
         \<and> (\<forall>e' \<in> set (survivors example_platform full_gym ''chest'' []).
               ranks_first (localeCompare example_platform) e e'))"
proof -
  have h: "consistent_on (localeCompare example_platform) (map ex_name (exercises example_platform))"
    by code_simp
  have s0: "survivors example_platform bands_only ''chest'' [''wrist''] = []" by code_simp
  have s1: "map ex_id (survivors example_platform full_gym ''chest'' []) 
        = [''cable_fly'', ''pushup'', ''bench_press'', ''db_incline'']" by code_simp
  then have ne: "survivors example_platform full_gym ''chest'' [] \<noteq> []" by auto
  have c1: "chooseExercise example_platform full_gym ''chest'' [] = ''bench_press''" by code_simp
  from chooseExercise_ranked [OF h, of bands_only "''chest''" "[''wrist'']"] s0
  have c0: "chooseExercise example_platform bands_only ''chest'' [''wrist''] = ''chest_fallback_exercise''"
    by simp
  from chooseExercise_ranked [OF h, of full_gym "''chest''" "[]"] ne
  have "\<exists>e \<in> set (survivors example_platform full_gym ''chest'' []).
         chooseExercise example_platform full_gym ''chest'' [] = ex_id e
         \<and> (\<forall>e' \<in> set (survivors example_platform full_gym ''chest'' []).
               ranks_first (localeCompare example_platform) e e')" by blast
  with h s0 s1 c0 c1 show ?thesis by blast
qed

section \<open>Meal allocator: properties\<close>

subsection \<open>The final selection\<close>



lemma score_cmp_total: "total_on (\<lambda>a b. mc_score a - mc_score b) A"
  unfolding total_on_def by auto

lemma score_cmp_trans: "trans_on' (\<lambda>a b. mc_score a - mc_score b) A"
  unfolding trans_on'_def by auto

lemma bestCombo_Some:
  assumes "bestCombo T tol beams = Some b"
  shows "b \<in> set beams
    \<and> ((within_tol T tol b \<and> (\<forall>b' \<in> set beams. within_tol T tol b' \<longrightarrow> mc_score b \<le> mc_score b'))
       \<or> ((\<forall>b' \<in> set beams. \<not> within_tol T tol b') \<and> (\<forall>b' \<in> set beams. mc_score b \<le> mc_score b')))"
proof -
  let ?w = "filter (within_tol T tol) beams"
  let ?src = "if length ?w > 0 then ?w else beams"
  let ?cmp = "\<lambda>a b. mc_score a - mc_score b"
  from assms obtain rest where s: "js_sort ?cmp ?src = b # rest"
    unfolding bestCombo_def Let_def
    by (cases "js_sort ?cmp ?src") (auto split: if_splits)
  from js_sort_head_least [OF score_cmp_total score_cmp_trans subset_UNIV s]
  have m: "b \<in> set ?src" and l: "\<forall>e' \<in> set ?src. mc_score b \<le> mc_score e'" by auto
  show ?thesis
  proof (cases "length ?w > 0")
    case True
    with m l show ?thesis by auto
  next
    case False
    then have "\<forall>b' \<in> set beams. \<not> within_tol T tol b'" by (auto simp: filter_empty_conv)
    with False m l show ?thesis by auto
  qed
qed


lemma meals_loop_Suc:
  "fst (meals_loop rnd pool pc goal T tol (Suc k) n)
     = (fst (mealBeams rnd pool pc goal T n), bestCombo T tol (fst (mealBeams rnd pool pc goal T n)))
       # fst (meals_loop rnd pool pc goal T tol k (snd (mealBeams rnd pool pc goal T n)))"
  by (simp add: split_beta)

lemma meals_loop_best:
  "(beams, best) \<in> set (fst (meals_loop rnd pool pc goal T tol k n)) \<Longrightarrow> best = bestCombo T tol beams"
proof (induction k arbitrary: n)
  case 0
  then show ?case by simp
next
  case (Suc k)
  then show ?case unfolding meals_loop_Suc by auto
qed


lemma mealSelections_Some:
  assumes "mealSelections rnd docs tier macros mpd strictness goal = Some sels"
  obtains pc where "precompute (perMealTargets macros mpd) (pools (fetchIngredientsByTierV2 docs tier)) = Some pc"
    and "sels = fst (meals_loop rnd (pools (fetchIngredientsByTierV2 docs tier)) pc goal
                      (perMealTargets macros mpd) (tolerance strictness) (nat \<lceil>mpd\<rceil>) 0)"
  using assms unfolding mealSelections_def allocate_def meal_passes_def Let_def
  by (auto split: option.splits if_splits)

subsection \<open>The combinations built\<close>





lemma singles_mem:
  assumes "x \<in> set (singles pc T beam choices)"
  obtains ing cand where "ing \<in> set choices" "cand \<in> set (lookup pc (ing_name ing))"
    "\<not> hasIngredient beam (ing_name ing)" "x = add_single T beam (make_item ing cand)"
  using assms unfolding singles_def by (auto split: if_splits)

lemma k_loop_mem:
  assumes "\<forall>k \<in> set ks. k \<le> 1"
    and "x \<in> set (fst (k_loop rnd pc T ls beam ks n))"
  shows "(0 \<in> set ks \<and> x = beam)
       \<or> (\<exists>ing \<in> set (l_shuffled ls) \<union> set (l_ranked ls). \<exists>cand.
             x = add_single T beam (make_item ing cand))"
  using assms
proof (induction ks arbitrary: n)
  case Nil
  then show ?case by simp
next
  case (Cons k ks)
  show ?case
  proof (cases "k = 0")
    case True
    with Cons.prems have "x = beam \<or> x \<in> set (fst (k_loop rnd pc T ls beam ks n))"
      by (auto simp: split_beta)
    with Cons.IH Cons.prems(1) True show ?thesis by auto
  next
    case False
    with Cons.prems(1) have k1: "k = 1" by auto
    let ?choices = "take (min 20 (length (l_ingList ls)))
                         (if rnd n < 0.6 then l_shuffled ls else l_ranked ls)"
    from Cons.prems(2) k1 have
      "x \<in> set (singles pc T beam ?choices) \<or> x \<in> set (fst (k_loop rnd pc T ls beam ks (Suc n)))"
      by (auto simp: split_beta Let_def)
    then show ?thesis
    proof
      assume "x \<in> set (singles pc T beam ?choices)"
      then obtain ing cand where i: "ing \<in> set ?choices"
        and x: "x = add_single T beam (make_item ing cand)"
        by (rule singles_mem)
      from i have "ing \<in> set (l_shuffled ls) \<union> set (l_ranked ls)"
        by (auto dest: in_set_takeD split: if_splits)
      with x show ?thesis by auto
    next
      assume "x \<in> set (fst (k_loop rnd pc T ls beam ks (Suc n)))"
      with Cons.IH Cons.prems(1) show ?thesis by auto
    qed
  qed
qed

lemma beams_loop_mem:
  assumes "\<forall>k \<in> set ks. k \<le> 1"
    and "x \<in> set (fst (beams_loop rnd pc T ls ks beams n))"
  shows "\<exists>beam \<in> set beams. (0 \<in> set ks \<and> x = beam)
       \<or> (\<exists>ing \<in> set (l_shuffled ls) \<union> set (l_ranked ls). \<exists>cand.
             x = add_single T beam (make_item ing cand))"
  using assms(2)
proof (induction beams arbitrary: n)
  case Nil
  then show ?case by simp
next
  case (Cons beam beams)
  let ?n1 = "snd (k_loop rnd pc T ls beam ks n)"
  from Cons.prems have "x \<in> set (fst (k_loop rnd pc T ls beam ks n))
      \<or> x \<in> set (fst (beams_loop rnd pc T ls ks beams ?n1))"
    by (auto simp: split_beta Let_def)
  then show ?case
  proof
    assume "x \<in> set (fst (k_loop rnd pc T ls beam ks n))"
    from k_loop_mem [OF assms(1) this] show ?thesis by auto
  next
    assume "x \<in> set (fst (beams_loop rnd pc T ls ks beams ?n1))"
    from Cons.IH [OF this] show ?thesis by auto
  qed
qed

lemma extendBeams_out:
  "fst (extendBeams rnd pool pc beams cat kMin kMax beamSize T n)
     = take beamSize (js_sort beam_cmp (fst (beams_loop rnd pc T
         \<lparr>l_ingList = pool cat,
          l_ranked = js_sort (\<lambda>a b. \<bar>macroGetter cat a - category_target cat T\<bar>
                                   - \<bar>macroGetter cat b - category_target cat T\<bar>) (pool cat),
          l_shuffled = fst (shuffle_loop rnd
             (length (js_sort (\<lambda>a b. \<bar>macroGetter cat a - category_target cat T\<bar>
                                   - \<bar>macroGetter cat b - category_target cat T\<bar>) (pool cat)) - 1)
             (js_sort (\<lambda>a b. \<bar>macroGetter cat a - category_target cat T\<bar>
                                   - \<bar>macroGetter cat b - category_target cat T\<bar>) (pool cat)) n)\<rparr>
         [kMin ..< Suc kMax] beams
         (snd (shuffle_loop rnd
             (length (js_sort (\<lambda>a b. \<bar>macroGetter cat a - category_target cat T\<bar>
                                   - \<bar>macroGetter cat b - category_target cat T\<bar>) (pool cat)) - 1)
             (js_sort (\<lambda>a b. \<bar>macroGetter cat a - category_target cat T\<bar>
                                   - \<bar>macroGetter cat b - category_target cat T\<bar>) (pool cat)) n)))))"
  unfolding extendBeams_def Let_def by (simp add: split_beta)






lemma mealBeams_stages:
  "mealBeams rnd pool pc goal T n =
     stage rnd pool pc goal (mealTargets rnd T n) fat 60
       (stage rnd pool pc goal (mealTargets rnd T n) veg 60
         (stage rnd pool pc goal (mealTargets rnd T n) carb 60
           (stage rnd pool pc goal (mealTargets rnd T n) protein 40 ([empty_beam T], n + 3))))"
  unfolding mealBeams_def Let_def ..


lemma totP_add_single:
  "mc_totP b = summed_protein b
     \<Longrightarrow> mc_totP (add_single T b item) = summed_protein (add_single T b item)"
  by (simp add: summed_protein_def add_single_def Let_def)

lemma extendBeams_totP:
  assumes "kMax \<le> 1" and "\<forall>b \<in> set beams. mc_totP b = summed_protein b"
    and "x \<in> set (fst (extendBeams rnd pool pc beams cat kMin kMax beamSize T n))"
  shows "mc_totP x = summed_protein x"
proof -
  from assms(3) obtain ls m where
    x: "x \<in> set (fst (beams_loop rnd pc T ls [kMin ..< Suc kMax] beams m))"
    unfolding extendBeams_out by (auto dest: in_set_takeD simp: set_js_sort)
  have k: "\<forall>k \<in> set [kMin ..< Suc kMax]. k \<le> 1" using assms(1) by auto
  from beams_loop_mem [OF k x] obtain beam where b: "beam \<in> set beams"
    and d: "x = beam \<or> (\<exists>ing cand. x = add_single T beam (make_item ing cand))"
    by blast
  from assms(2) b have "mc_totP beam = summed_protein beam" by blast
  with d show ?thesis by (auto simp: totP_add_single)
qed

lemma stage_totP:
  assumes "\<forall>b \<in> set (fst st). mc_totP b = summed_protein b"
    and "x \<in> set (fst (stage rnd pool pc goal T cat bsz st))"
  shows "mc_totP x = summed_protein x"
proof -
  have k: "snd (ranges goal cat) \<le> 1"
    by (cases cat) (simp_all add: ranges_def)
  from assms(2) show ?thesis
    unfolding stage_def by (rule extendBeams_totP [OF k assms(1)])
qed

lemma mealBeams_totP:
  assumes "x \<in> set (fst (mealBeams rnd pool pc goal T n))"
  shows "mc_totP x = summed_protein x"
proof -
  let ?t = "mealTargets rnd T n"
  let ?e0 = "([empty_beam T], n + 3)"
  let ?e1 = "stage rnd pool pc goal ?t protein 40 ?e0"
  let ?e2 = "stage rnd pool pc goal ?t carb 60 ?e1"
  let ?e3 = "stage rnd pool pc goal ?t veg 60 ?e2"
  have t0: "\<forall>b \<in> set (fst ?e0). mc_totP b = summed_protein b"
    by (simp add: empty_beam_def summed_protein_def)
  have t1: "\<forall>b \<in> set (fst ?e1). mc_totP b = summed_protein b"
    using stage_totP [OF t0] by blast
  have t2: "\<forall>b \<in> set (fst ?e2). mc_totP b = summed_protein b"
    using stage_totP [OF t1] by blast
  have t3: "\<forall>b \<in> set (fst ?e3). mc_totP b = summed_protein b"
    using stage_totP [OF t2] by blast
  from assms show ?thesis unfolding mealBeams_stages by (rule stage_totP [OF t3])
qed

lemma meals_loop_totP:
  "(beams, best) \<in> set (fst (meals_loop rnd pool pc goal T tol k n)) \<Longrightarrow> b \<in> set beams
     \<Longrightarrow> mc_totP b = summed_protein b"
proof (induction k arbitrary: n)
  case 0
  then show ?case by simp
next
  case (Suc k)
  from Suc.prems(1) have "beams = fst (mealBeams rnd pool pc goal T n)
    \<or> (beams, best) \<in> set (fst (meals_loop rnd pool pc goal T tol k (snd (mealBeams rnd pool pc goal T n))))"
    unfolding meals_loop_Suc by auto
  then show ?case
  proof
    assume "beams = fst (mealBeams rnd pool pc goal T n)"
    with Suc.prems(2) show ?thesis by (simp add: mealBeams_totP)
  next
    assume "(beams, best) \<in> set (fst (meals_loop rnd pool pc goal T tol k (snd (mealBeams rnd pool pc goal T n))))"
    from Suc.IH [OF this Suc.prems(2)] show ?thesis .
  qed
qed

text \<open>
  Claim C4: for every meal of \<^verbatim>\<open>buildIngredientPlan\<close> for which a combination is
  kept, the combination is one of the beams that survive and its total of protein is
  the sum over its items; either that total is within the tolerance of the per-meal
  protein target (10% in normal mode), or no surviving beam passes the tolerance test
  and the combination has the least score of all surviving beams.
\<close>

theorem selection_within_tolerance_or_fallback:
  assumes "mealSelections rnd docs tier macros mpd strictness goal = Some sels"
    and "(beams, Some b) \<in> set sels"
  shows "b \<in> set beams
     \<and> mc_totP b = summed_protein b
     \<and> (\<bar>mc_totP b - t_Ppm (perMealTargets macros mpd)\<bar>
           \<le> t_Ppm (perMealTargets macros mpd) * tolerance strictness
         \<or> ((\<forall>b' \<in> set beams. \<not> within_tol (perMealTargets macros mpd) (tolerance strictness) b')
            \<and> (\<forall>b' \<in> set beams. mc_score b \<le> mc_score b')))
     \<and> tolerance normal = 1 / 10"
proof -
  from assms(1) obtain pc where
    s: "sels = fst (meals_loop rnd (pools (fetchIngredientsByTierV2 docs tier)) pc goal
                      (perMealTargets macros mpd) (tolerance strictness) (nat \<lceil>mpd\<rceil>) 0)"
    by (rule mealSelections_Some)
  with assms(2) have "bestCombo (perMealTargets macros mpd) (tolerance strictness) beams = Some b"
    using meals_loop_best by metis
  from bestCombo_Some [OF this] have m: "b \<in> set beams"
    and c: "\<bar>mc_totP b - t_Ppm (perMealTargets macros mpd)\<bar>
           \<le> t_Ppm (perMealTargets macros mpd) * tolerance strictness
         \<or> ((\<forall>b' \<in> set beams. \<not> within_tol (perMealTargets macros mpd) (tolerance strictness) b')
            \<and> (\<forall>b' \<in> set beams. mc_score b \<le> mc_score b'))"
    by (auto simp: within_tol_def Let_def)
  from assms(2) s m have "mc_totP b = summed_protein b" by (metis meals_loop_totP)
  with m c show ?thesis by (simp add: tolerance_def)
qed

text \<open>
  Claim C4, witness: with a daily protein target of 12 g in one meal, the combination
  kept has two eggs, 12 g of protein.
\<close>

theorem selection_within_tolerance_or_fallback_witness:
  "mealSelections draws_high example_ingredients tier_medium (example_macros 12) 1 normal recomp
     = Some example_sels
   \<and> (fst (example_sels ! 0), Some two_eggs) \<in> set example_sels
   \<and> two_eggs \<in> set (fst (example_sels ! 0))
   \<and> \<bar>mc_totP two_eggs - t_Ppm (perMealTargets (example_macros 12) 1)\<bar>
        \<le> t_Ppm (perMealTargets (example_macros 12) 1) * tolerance normal"
proof -
  have s: "mealSelections draws_high example_ingredients tier_medium (example_macros 12) 1 normal recomp
     = Some example_sels" by code_simp
  have b: "(fst (example_sels ! 0), Some two_eggs) \<in> set example_sels" by code_simp
  have w: "\<bar>mc_totP two_eggs - t_Ppm (perMealTargets (example_macros 12) 1)\<bar>
        \<le> t_Ppm (perMealTargets (example_macros 12) 1) * tolerance normal" by code_simp
  from selection_within_tolerance_or_fallback [OF s b] s b w show ?thesis by blast
qed

subsection \<open>One item of each category\<close>


































lemma one_of_each_not_no_meal: "\<not> one_of_each goal no_meal"
  by (simp add: one_of_each_def no_meal_def listed_def)



text \<open>
  The same happens, with names told apart by category, when an ingredient sized in
  pieces has its least count above its greatest count: it has no portion at all.
\<close>

lemma min_above_max_no_meal:
  "pools (fetchIngredientsByTierV2 no_pieces_ingredients tier_medium) protein \<noteq> []
   \<and> pools (fetchIngredientsByTierV2 no_pieces_ingredients tier_medium) carb \<noteq> []
   \<and> pools (fetchIngredientsByTierV2 no_pieces_ingredients tier_medium) veg \<noteq> []
   \<and> pools (fetchIngredientsByTierV2 no_pieces_ingredients tier_medium) fat \<noteq> []
   \<and> portions_end (fetchIngredientsByTierV2 no_pieces_ingredients tier_medium)
   \<and> names_by_category (fetchIngredientsByTierV2 no_pieces_ingredients tier_medium)
   \<and> buildIngredientPlan draws_low no_pieces_ingredients tier_medium (example_macros 9) 1
        normal recomp = Some [no_meal]"
  by code_simp



subsection \<open>The draws\<close>

text \<open>
  Claim C2, as stated: for a fixed input two runs of \<^verbatim>\<open>buildIngredientPlan\<close>
  return the same plan. The function has no parameter for the random source; with
  the same arguments, a run whose draws are all 0 and a run whose draws are all 0.9
  return different plans.
\<close>

theorem same_input_two_plans:
  "buildIngredientPlan draws_low example_ingredients tier_medium (example_macros 9) 1 normal recomp
     \<noteq> buildIngredientPlan draws_high example_ingredients tier_medium (example_macros 9) 1 normal recomp"
  by code_simp

lemma agree_mono: "agree r r' a b \<Longrightarrow> a \<le> a' \<Longrightarrow> b' \<le> b \<Longrightarrow> agree r r' a' b'"
  unfolding agree_def by auto

lemma agree_at: "agree r r' a b \<Longrightarrow> a \<le> i \<Longrightarrow> i < b \<Longrightarrow> r' i = r i"
  unfolding agree_def by auto

lemma shuffle_loop_snd: "snd (shuffle_loop r i xs n) = n + i"
  by (induction i arbitrary: xs n) (simp_all add: Let_def)

lemma shuffle_loop_agree:
  "agree r r' n (n + i) \<Longrightarrow> shuffle_loop r' i xs n = shuffle_loop r i xs n"
proof (induction i arbitrary: xs n)
  case 0
  show ?case by simp
next
  case (Suc i)
  from Suc.prems have e: "r' n = r n" by (rule agree_at) simp_all
  from Suc.prems have "agree r r' (Suc n) (Suc n + i)" by (rule agree_mono) simp_all
  from Suc.IH [OF this] e show ?case by (simp add: Let_def)
qed

lemma k_loop_snd: "n \<le> snd (k_loop r pc T ls beam ks n)"
proof (induction ks arbitrary: n)
  case Nil
  show ?case by simp
next
  case (Cons k ks)
  from Cons [of n] Cons [of "Suc n"] show ?case
    by (simp add: split_beta Let_def)
qed

lemma k_loop_agree:
  "agree r r' n (snd (k_loop r pc T ls beam ks n))
     \<Longrightarrow> k_loop r' pc T ls beam ks n = k_loop r pc T ls beam ks n"
proof (induction ks arbitrary: n)
  case Nil
  show ?case by simp
next
  case (Cons k ks)
  show ?case
  proof (cases "k = 0")
    case True
    with Cons.prems have "agree r r' n (snd (k_loop r pc T ls beam ks n))"
      by (simp add: split_beta)
    from Cons.IH [OF this] True show ?thesis by (simp add: split_beta)
  next
    case False
    with Cons.prems have a: "agree r r' n (snd (k_loop r pc T ls beam ks (Suc n)))"
      by (simp add: split_beta Let_def)
    have m: "Suc n \<le> snd (k_loop r pc T ls beam ks (Suc n))" by (rule k_loop_snd)
    from m have e: "r' n = r n" by (intro agree_at [OF a]) simp_all
    from a have "agree r r' (Suc n) (snd (k_loop r pc T ls beam ks (Suc n)))"
      by (rule agree_mono) simp_all
    from Cons.IH [OF this] e False show ?thesis by (simp add: split_beta Let_def)
  qed
qed

lemma beams_loop_snd: "n \<le> snd (beams_loop r pc T ls ks beams n)"
proof (induction beams arbitrary: n)
  case Nil
  show ?case by simp
next
  case (Cons beam beams)
  have "n \<le> snd (k_loop r pc T ls beam ks n)" by (rule k_loop_snd)
  also have "\<dots> \<le> snd (beams_loop r pc T ls ks beams (snd (k_loop r pc T ls beam ks n)))"
    by (rule Cons)
  finally show ?case by (simp add: split_beta Let_def)
qed

lemma beams_loop_agree:
  "agree r r' n (snd (beams_loop r pc T ls ks beams n))
     \<Longrightarrow> beams_loop r' pc T ls ks beams n = beams_loop r pc T ls ks beams n"
proof (induction beams arbitrary: n)
  case Nil
  show ?case by simp
next
  case (Cons beam beams)
  let ?n1 = "snd (k_loop r pc T ls beam ks n)"
  let ?n2 = "snd (beams_loop r pc T ls ks beams ?n1)"
  from Cons.prems have a: "agree r r' n ?n2" by (simp add: split_beta Let_def)
  have m1: "n \<le> ?n1" by (rule k_loop_snd)
  have m2: "?n1 \<le> ?n2" by (rule beams_loop_snd)
  have "agree r r' n ?n1" by (rule agree_mono [OF a le_refl m2])
  then have k: "k_loop r' pc T ls beam ks n = k_loop r pc T ls beam ks n" by (rule k_loop_agree)
  have "agree r r' ?n1 ?n2" by (rule agree_mono [OF a m1 le_refl])
  from Cons.IH [OF this] k show ?case by (simp add: split_beta Let_def)
qed

lemma extendBeams_pair:
  "extendBeams r pool pc beams cat kMin kMax bsz T n =
     (let ranked = js_sort (\<lambda>a b. \<bar>macroGetter cat a - category_target cat T\<bar>
                                   - \<bar>macroGetter cat b - category_target cat T\<bar>) (pool cat);
          sh = shuffle_loop r (length ranked - 1) ranked n;
          res = beams_loop r pc T
                  \<lparr>l_ingList = pool cat, l_ranked = ranked, l_shuffled = fst sh\<rparr>
                  [kMin ..< Suc kMax] beams (snd sh)
      in (take bsz (js_sort beam_cmp (fst res)), snd res))"
  unfolding extendBeams_def Let_def by (simp add: split_beta)

lemma extendBeams_snd: "n \<le> snd (extendBeams r pool pc beams cat kMin kMax bsz T n)"
proof -
  let ?ranked = "js_sort (\<lambda>a b. \<bar>macroGetter cat a - category_target cat T\<bar>
                                   - \<bar>macroGetter cat b - category_target cat T\<bar>) (pool cat)"
  let ?sh = "shuffle_loop r (length ?ranked - 1) ?ranked n"
  have "n \<le> snd ?sh" by (simp add: shuffle_loop_snd)
  also have "\<dots> \<le> snd (beams_loop r pc T
                  \<lparr>l_ingList = pool cat, l_ranked = ?ranked, l_shuffled = fst ?sh\<rparr>
                  [kMin ..< Suc kMax] beams (snd ?sh))" by (rule beams_loop_snd)
  finally show ?thesis unfolding extendBeams_pair Let_def by simp
qed

lemma extendBeams_agree:
  assumes "agree r r' n (snd (extendBeams r pool pc beams cat kMin kMax bsz T n))"
  shows "extendBeams r' pool pc beams cat kMin kMax bsz T n
           = extendBeams r pool pc beams cat kMin kMax bsz T n"
proof -
  let ?ranked = "js_sort (\<lambda>a b. \<bar>macroGetter cat a - category_target cat T\<bar>
                                   - \<bar>macroGetter cat b - category_target cat T\<bar>) (pool cat)"
  let ?sh = "shuffle_loop r (length ?ranked - 1) ?ranked n"
  let ?ls = "\<lparr>l_ingList = pool cat, l_ranked = ?ranked, l_shuffled = fst ?sh\<rparr>"
  let ?res = "beams_loop r pc T ?ls [kMin ..< Suc kMax] beams (snd ?sh)"
  from assms have a: "agree r r' n (snd ?res)" unfolding extendBeams_pair Let_def by simp
  have s: "snd ?sh = n + (length ?ranked - 1)" by (rule shuffle_loop_snd)
  have m: "snd ?sh \<le> snd ?res" by (rule beams_loop_snd)
  have sm: "n + (length ?ranked - 1) \<le> snd ?res" using m unfolding s .
  have ns: "n \<le> snd ?sh" unfolding s by simp
  have "agree r r' n (n + (length ?ranked - 1))" by (rule agree_mono [OF a le_refl sm])
  then have e1: "shuffle_loop r' (length ?ranked - 1) ?ranked n = ?sh"
    by (rule shuffle_loop_agree)
  have "agree r r' (snd ?sh) (snd ?res)" by (rule agree_mono [OF a ns le_refl])
  then have e2: "beams_loop r' pc T ?ls [kMin ..< Suc kMax] beams (snd ?sh) = ?res"
    by (rule beams_loop_agree)
  show ?thesis unfolding extendBeams_pair Let_def e1 e2 ..
qed

lemma stage_snd: "snd st \<le> snd (stage r pool pc goal T cat bsz st)"
  unfolding stage_def by (rule extendBeams_snd)

lemma stage_agree:
  "agree r r' (snd st) (snd (stage r pool pc goal T cat bsz st))
     \<Longrightarrow> stage r' pool pc goal T cat bsz st = stage r pool pc goal T cat bsz st"
  unfolding stage_def by (rule extendBeams_agree)

lemma mealTargets_agree:
  "agree r r' n (n + 3) \<Longrightarrow> mealTargets r' T n = mealTargets r T n"
proof -
  assume a: "agree r r' n (n + 3)"
  have "r' n = r n" "r' (n + 1) = r (n + 1)" "r' (n + 2) = r (n + 2)"
    by (rule agree_at [OF a]; simp)+
  then show ?thesis by (simp add: mealTargets_def)
qed

lemma mealBeams_snd: "n + 3 \<le> snd (mealBeams r pool pc goal T n)"
proof -
  let ?t = "mealTargets r T n"
  let ?e1 = "stage r pool pc goal ?t protein 40 ([empty_beam T], n + 3)"
  let ?e2 = "stage r pool pc goal ?t carb 60 ?e1"
  let ?e3 = "stage r pool pc goal ?t veg 60 ?e2"
  let ?e4 = "stage r pool pc goal ?t fat 60 ?e3"
  have "n + 3 \<le> snd ?e1" using stage_snd [of "([empty_beam T], n + 3)" r pool pc goal ?t protein 40]
    by simp
  also have "\<dots> \<le> snd ?e2" by (rule stage_snd)
  also have "\<dots> \<le> snd ?e3" by (rule stage_snd)
  also have "\<dots> \<le> snd ?e4" by (rule stage_snd)
  finally show ?thesis unfolding mealBeams_stages .
qed

lemma mealBeams_agree:
  assumes "agree r r' n (snd (mealBeams r pool pc goal T n))"
  shows "mealBeams r' pool pc goal T n = mealBeams r pool pc goal T n"
proof -
  let ?t = "mealTargets r T n"
  let ?e0 = "([empty_beam T], n + 3)"
  let ?e1 = "stage r pool pc goal ?t protein 40 ?e0"
  let ?e2 = "stage r pool pc goal ?t carb 60 ?e1"
  let ?e3 = "stage r pool pc goal ?t veg 60 ?e2"
  let ?e4 = "stage r pool pc goal ?t fat 60 ?e3"
  from assms have a: "agree r r' n (snd ?e4)" unfolding mealBeams_stages .
  have m1: "n + 3 \<le> snd ?e1"
    using stage_snd [of ?e0 r pool pc goal ?t protein 40] by simp
  have m2: "snd ?e1 \<le> snd ?e2" by (rule stage_snd)
  have m3: "snd ?e2 \<le> snd ?e3" by (rule stage_snd)
  have m4: "snd ?e3 \<le> snd ?e4" by (rule stage_snd)
  have l3: "n + 3 \<le> snd ?e4" using m1 m2 m3 m4 by linarith
  have l2: "snd ?e1 \<le> snd ?e4" using m2 m3 m4 by linarith
  have l1: "snd ?e2 \<le> snd ?e4" using m3 m4 by linarith
  have g0: "n \<le> snd ?e0" by simp
  have g1: "n \<le> snd ?e1" using m1 by linarith
  have g2: "n \<le> snd ?e2" using m1 m2 by linarith
  have g3: "n \<le> snd ?e3" using m1 m2 m3 by linarith
  have "agree r r' n (n + 3)" by (rule agree_mono [OF a le_refl l3])
  then have t: "mealTargets r' T n = ?t" by (rule mealTargets_agree)
  have "agree r r' (snd ?e0) (snd ?e1)" by (rule agree_mono [OF a g0 l2])
  then have e1: "stage r' pool pc goal ?t protein 40 ?e0 = ?e1" by (rule stage_agree)
  have "agree r r' (snd ?e1) (snd ?e2)" by (rule agree_mono [OF a g1 l1])
  then have e2: "stage r' pool pc goal ?t carb 60 ?e1 = ?e2" by (rule stage_agree)
  have "agree r r' (snd ?e2) (snd ?e3)" by (rule agree_mono [OF a g2 m4])
  then have e3: "stage r' pool pc goal ?t veg 60 ?e2 = ?e3" by (rule stage_agree)
  have "agree r r' (snd ?e3) (snd ?e4)" by (rule agree_mono [OF a g3 le_refl])
  then have e4: "stage r' pool pc goal ?t fat 60 ?e3 = ?e4" by (rule stage_agree)
  show ?thesis unfolding mealBeams_stages t e1 e2 e3 e4 ..
qed

lemma meals_loop_pair:
  "meals_loop r pool pc goal T tol (Suc k) n =
     ((fst (mealBeams r pool pc goal T n), bestCombo T tol (fst (mealBeams r pool pc goal T n)))
        # fst (meals_loop r pool pc goal T tol k (snd (mealBeams r pool pc goal T n))),
      snd (meals_loop r pool pc goal T tol k (snd (mealBeams r pool pc goal T n))))"
  by (simp add: split_beta Let_def)

lemma meals_loop_snd: "n \<le> snd (meals_loop r pool pc goal T tol k n)"
proof (induction k arbitrary: n)
  case 0
  show ?case by simp
next
  case (Suc k)
  have "n \<le> snd (mealBeams r pool pc goal T n)"
    using mealBeams_snd [of n r pool pc goal T] by simp
  also have "\<dots> \<le> snd (meals_loop r pool pc goal T tol k (snd (mealBeams r pool pc goal T n)))"
    by (rule Suc)
  finally show ?case unfolding meals_loop_pair by simp
qed

lemma meals_loop_agree:
  "agree r r' n (snd (meals_loop r pool pc goal T tol k n))
     \<Longrightarrow> meals_loop r' pool pc goal T tol k n = meals_loop r pool pc goal T tol k n"
proof (induction k arbitrary: n)
  case 0
  show ?case by simp
next
  case (Suc k)
  let ?n1 = "snd (mealBeams r pool pc goal T n)"
  let ?n2 = "snd (meals_loop r pool pc goal T tol k ?n1)"
  from Suc.prems have a: "agree r r' n ?n2" unfolding meals_loop_pair by simp
  have m1: "n \<le> ?n1" using mealBeams_snd [of n r pool pc goal T] by simp
  have m2: "?n1 \<le> ?n2" by (rule meals_loop_snd)
  have "agree r r' n ?n1" by (rule agree_mono [OF a le_refl m2])
  then have e1: "mealBeams r' pool pc goal T n = mealBeams r pool pc goal T n"
    by (rule mealBeams_agree)
  have "agree r r' ?n1 ?n2" by (rule agree_mono [OF a m1 le_refl])
  from Suc.IH [OF this] have e2: "meals_loop r' pool pc goal T tol k ?n1
     = meals_loop r pool pc goal T tol k ?n1" .
  show ?case unfolding meals_loop_pair e1 e2 ..
qed

text \<open>
  Claim C2, amended: the plan is determined by the arguments together with the values
  that \<^verbatim>\<open>Math.random()\<close> returns during the run: two runs on the same arguments
  whose draws are the same, as far as the first run draws, return the same plan.
\<close>

theorem same_draws_same_plan:
  assumes "\<forall>i < draws_made rnd docs tier macros mpd strictness goal. rnd' i = rnd i"
  shows "buildIngredientPlan rnd' docs tier macros mpd strictness goal
           = buildIngredientPlan rnd docs tier macros mpd strictness goal"
proof (cases "precompute (perMealTargets macros mpd) (pools (fetchIngredientsByTierV2 docs tier))")
  case None
  then show ?thesis
    unfolding buildIngredientPlan_def mealSelections_def allocate_def Let_def by simp
next
  case (Some pc)
  show ?thesis
  proof (cases "meal_passes mpd")
    case None
    with Some show ?thesis
      unfolding buildIngredientPlan_def mealSelections_def allocate_def Let_def by simp
  next
    case passes: (Some k)
    let ?loop = "\<lambda>r. meals_loop r (pools (fetchIngredientsByTierV2 docs tier)) pc goal
                        (perMealTargets macros mpd) (tolerance strictness) k 0"
    from Some passes
    have d: "draws_made rnd docs tier macros mpd strictness goal = snd (?loop rnd)"
      unfolding draws_made_def allocate_def Let_def by simp
    from assms have "agree rnd rnd' 0 (snd (?loop rnd))" unfolding d agree_def by simp
    then have "?loop rnd' = ?loop rnd" by (rule meals_loop_agree)
    with Some passes show ?thesis
      unfolding buildIngredientPlan_def mealSelections_def allocate_def Let_def by simp
  qed
qed

text \<open>
  Claim C2, witness: the run on the example catalog makes 13 draws; a sequence that
  differs only from the draw after them gives the same plan.
\<close>

theorem same_draws_same_plan_witness:
  "draws_made draws_high example_ingredients tier_medium (example_macros 9) 1 normal recomp = 13
   \<and> map draws_mixed [0 ..< 13] = map draws_high [0 ..< 13]
   \<and> draws_mixed 13 \<noteq> draws_high 13
   \<and> buildIngredientPlan draws_mixed example_ingredients tier_medium (example_macros 9) 1 normal recomp
       = buildIngredientPlan draws_high example_ingredients tier_medium (example_macros 9) 1 normal recomp"
proof -
  have d: "draws_made draws_high example_ingredients tier_medium (example_macros 9) 1 normal recomp = 13"
    by code_simp
  have m: "map draws_mixed [0 ..< 13] = map draws_high [0 ..< 13]" by code_simp
  have n: "draws_mixed 13 \<noteq> draws_high 13" by code_simp
  have "\<forall>i < draws_made draws_high example_ingredients tier_medium (example_macros 9) 1 normal recomp.
          draws_mixed i = draws_high i"
    unfolding d by (simp add: draws_mixed_def draws_high_def)
  from same_draws_same_plan [OF this] d m n show ?thesis by blast
qed

section \<open>Adaptation engine: properties\<close>

text \<open>
  Claim C9, as stated: with a region of soreness 4 or more, each application lowers
  the sets of a matching block by 1. With the regions \<open>chest\<close> and \<open>upper_chest\<close> both
  at 4, one application takes a block for \<open>upper_chest\<close> from 5 sets to 3.
\<close>

theorem adaptPlan_two_regions:
  "adaptPlan (sore_req sore_plan)
     = Inr \<lparr>patched_plan = \<lparr>cp_workouts = Some [\<lparr>pd_blocks = Some
       [\<lparr>pb_muscle = ''upper_chest'', pb_sets = Some 3, pb_rir = Some ''1''\<rparr>,
        \<lparr>pb_muscle = ''back'', pb_sets = Some 5, pb_rir = Some ''1''\<rparr>]\<rparr>],
     cp_kcal = Some 2500\<rparr>, change_log =
          [[Lit ''chest'', Lit '' -1 set (soreness '', Num 4, Lit '').''],
           [Lit ''upper_chest'', Lit '' -1 set (soreness '', Num 4, Lit '').'']]\<rparr>"
  by code_simp

lemma for_each_block_comp:
  "for_each_block g (for_each_block h plan) = for_each_block (g \<circ> h) plan"
  by (simp add: for_each_block_def option.map_comp comp_def)

lemma for_each_block_id: "for_each_block (\<lambda>b. b) plan = plan"
  by (simp add: for_each_block_def option.map_ident cong: option.map_cong)

lemma region_matches_soreness_block [simp]:
  "region_matches r (soreness_block r' b) = region_matches r b"
  by (simp add: region_matches_def soreness_block_def)

lemma sore_hits_soreness_block [simp]:
  "sore_hits es (soreness_block r b) = sore_hits es b"
  by (simp add: sore_hits_def)

lemma sets_or_3_max: "sets_or_3 (Some (max 1 x)) = max 1 x"
  by (simp add: sets_or_3_def max_def)

lemma floor_twice: "1 \<le> k \<Longrightarrow> max 1 (max 1 (s - 1) - k) = max (1::rat) (s - (k + 1))"
  by (auto simp: max_def)

lemma sore_hits_Cons:
  "sore_hits (e # es) b = sore_hits es b + (if snd e \<ge> 4 \<and> region_matches (fst e) b then 1 else 0)"
  by (simp add: sore_hits_def)

lemma lower_sets_soreness_block:
  "lower_sets k (soreness_block r b) = lower_sets (k + (if region_matches r b then 1 else 0)) b"
proof (cases "region_matches r b")
  case False
  then show ?thesis by (simp add: soreness_block_def)
next
  case True
  show ?thesis
  proof (cases "k = 0")
    case True
    with \<open>region_matches r b\<close> show ?thesis by (simp add: lower_sets_def soreness_block_def)
  next
    case False
    then have "1 \<le> (of_nat k :: rat)" by simp
    from floor_twice [OF this] False \<open>region_matches r b\<close> show ?thesis
      by (simp add: lower_sets_def soreness_block_def sets_or_3_max add.commute)
  qed
qed

lemma soreness_entry_pair:
  "soreness_entry (plan, clog) (region, score) =
     (if score \<ge> 4
      then (for_each_block (soreness_block region) plan,
            clog @ [[Lit region, Lit '' -1 set (soreness '', Num score, Lit '').'']])
      else (plan, clog))"
  by (simp add: soreness_entry_def)

lemma foldl_soreness_plan:
  "fst (foldl soreness_entry (plan, clog) es)
     = for_each_block (\<lambda>b. lower_sets (sore_hits es b) b) plan"
proof (induction es arbitrary: plan clog)
  case Nil
  show ?case by (simp add: sore_hits_def lower_sets_def for_each_block_id)
next
  case (Cons e es)
  obtain region score where e: "e = (region, score)" by (cases e)
  show ?case
  proof (cases "score \<ge> 4")
    case True
    then have "fst (foldl soreness_entry (plan, clog) (e # es))
        = for_each_block (\<lambda>b. lower_sets (sore_hits es b) b) (for_each_block (soreness_block region) plan)"
      by (simp add: e soreness_entry_pair Cons.IH)
    also have "\<dots> = for_each_block (\<lambda>b. lower_sets (sore_hits (e # es) b) b) plan"
      using True
      by (simp add: for_each_block_comp comp_def lower_sets_soreness_block e sore_hits_Cons)
    finally show ?thesis .
  next
    case False
    then show ?thesis by (simp add: e soreness_entry_pair Cons.IH sore_hits_Cons)
  qed
qed

lemma plan_blocks_for_each:
  "plan_blocks (for_each_block g plan) = map (map g) (plan_blocks plan)"
  by (simp add: plan_blocks_def for_each_block_def split: option.splits)

lemma weight_trend_rule_blocks:
  "plan_blocks (fst (weight_trend_rule t st)) = plan_blocks (fst st)"
  by (cases st) (simp add: weight_trend_rule_def plan_blocks_def Let_def)

lemma adaptPlan_blocks:
  assumes "adaptPlan body = Inr res" and "current_plan body = Some plan" and "quiet body"
  shows "plan_blocks (patched_plan res)
           = map (map (\<lambda>b. lower_sets (sore_hits (sore_entries body) b) b)) (plan_blocks plan)"
proof -
  from assms(3) obtain rd where rd: "readiness body = Some rd"
    by (auto simp: quiet_def split: option.splits)
  let ?es = "case soreness rd of None \<Rightarrow> [] | Some es \<Rightarrow> es"
  from assms(3) rd have q1: "\<not> (stress rd \<ge> 4 \<and> motivation rd \<le> 2)"
    and q2: "\<not> (case last_week_adherence_pct body of None \<Rightarrow> 100 | Some a \<Rightarrow> a) < 60"
    by (simp_all add: quiet_def)
  from assms(1,2) rd q1 q2 have
    "patched_plan res = fst (weight_trend_rule (weight_trend_2w body) (foldl soreness_entry (plan, []) ?es))"
    by (auto simp: adaptPlan_def Let_def)
  then have "plan_blocks (patched_plan res) = plan_blocks (fst (foldl soreness_entry (plan, []) ?es))"
    by (simp add: weight_trend_rule_blocks)
  also have "\<dots> = map (map (\<lambda>b. lower_sets (sore_hits ?es b) b)) (plan_blocks plan)"
    by (simp add: foldl_soreness_plan plan_blocks_for_each)
  finally show ?thesis using rd by (simp add: sore_entries_def)
qed

lemma sore_hits_lower_sets [simp]: "sore_hits es (lower_sets k b) = sore_hits es b"
  by (simp add: sore_hits_def lower_sets_def region_matches_def)

lemma lower_sets_twice: "lower_sets k (lower_sets k b) = lower_sets (2 * k) b"
proof (cases "k = 0")
  case True then show ?thesis by (simp add: lower_sets_def)
next
  case False
  have "max 1 (max 1 (s - of_nat k) - of_nat k) = max (1::rat) (s - 2 * of_nat k)" for s
    using False by (auto simp: max_def)
  with False show ?thesis by (simp add: lower_sets_def sets_or_3_max)
qed

text \<open>
  Claim C9, amended: \<^verbatim>\<open>adaptPlan\<close> is not idempotent. When neither the rule of
  global fatigue nor the rule of low adherence fires, one application lowers the sets
  of each block by 1 for every soreness entry of 4 or more that matches it (by \<open>k\<close> for
  \<open>k\<close> such entries, never below 1, absent or zero sets counting as 3), and a second
  application to the result lowers them again: by \<open>2 * k\<close> in all, never below 1.
\<close>

theorem adaptPlan_twice:
  assumes "current_plan body = Some plan" and "quiet body"
    and "adaptPlan body = Inr once"
    and "adaptPlan (body\<lparr>current_plan := Some (patched_plan once)\<rparr>) = Inr twice"
  shows "plan_blocks (patched_plan once)
           = map (map (\<lambda>b. lower_sets (sore_hits (sore_entries body) b) b)) (plan_blocks plan)
       \<and> plan_blocks (patched_plan twice)
           = map (map (\<lambda>b. lower_sets (2 * sore_hits (sore_entries body) b) b)) (plan_blocks plan)"
proof -
  let ?body' = "body\<lparr>current_plan := Some (patched_plan once)\<rparr>"
  have one: "plan_blocks (patched_plan once)
           = map (map (\<lambda>b. lower_sets (sore_hits (sore_entries body) b) b)) (plan_blocks plan)"
    by (rule adaptPlan_blocks [OF assms(3,1,2)])
  have q: "quiet ?body'" using assms(2) by (simp add: quiet_def split: option.splits)
  have e: "sore_entries ?body' = sore_entries body" by (simp add: sore_entries_def)
  have "plan_blocks (patched_plan twice)
     = map (map (\<lambda>b. lower_sets (sore_hits (sore_entries body) b) b)) (plan_blocks (patched_plan once))"
    using adaptPlan_blocks [OF assms(4) _ q] by (simp add: e)
  then have "plan_blocks (patched_plan twice)
           = map (map (\<lambda>b. lower_sets (2 * sore_hits (sore_entries body) b) b)) (plan_blocks plan)"
    by (simp add: one comp_def lower_sets_twice)
  with one show ?thesis by blast
qed

text \<open>
  Claim C9, witness: one sore region matching a block of 5 sets gives 4 sets after the
  first application and 3 after the second.
\<close>

theorem adaptPlan_twice_witness:
  "current_plan (chest_req (chest_plan 5)) = Some (chest_plan 5)
   \<and> quiet (chest_req (chest_plan 5))
   \<and> adaptPlan (chest_req (chest_plan 5))
       = Inr \<lparr>patched_plan = chest_plan 4, change_log = chest_log\<rparr>
   \<and> adaptPlan (chest_req (chest_plan 4))
       = Inr \<lparr>patched_plan = chest_plan 3, change_log = chest_log\<rparr>
   \<and> plan_blocks (chest_plan 4)
       = map (map (\<lambda>b. lower_sets (sore_hits (sore_entries (chest_req (chest_plan 5))) b) b))
           (plan_blocks (chest_plan 5))
   \<and> plan_blocks (chest_plan 3)
       = map (map (\<lambda>b. lower_sets (2 * sore_hits (sore_entries (chest_req (chest_plan 5))) b) b))
           (plan_blocks (chest_plan 5))"
proof -
  have p: "current_plan (chest_req (chest_plan 5)) = Some (chest_plan 5)" by code_simp
  have q: "quiet (chest_req (chest_plan 5))" by code_simp
  have a: "adaptPlan (chest_req (chest_plan 5))
       = Inr \<lparr>patched_plan = chest_plan 4, change_log = chest_log\<rparr>" by code_simp
  have b: "adaptPlan ((chest_req (chest_plan 5))\<lparr>current_plan :=
            Some (patched_plan \<lparr>patched_plan = chest_plan 4, change_log = chest_log\<rparr>)\<rparr>)
       = Inr \<lparr>patched_plan = chest_plan 3, change_log = chest_log\<rparr>" by code_simp
  have b': "adaptPlan (chest_req (chest_plan 4))
       = Inr \<lparr>patched_plan = chest_plan 3, change_log = chest_log\<rparr>" by code_simp
  from adaptPlan_twice [OF p q a b] p q a b' show ?thesis by simp
qed

end
